theory Spec2Isabelle
  imports Main
begin

section \<open>Python values, exceptions and effects\<close>

text \<open>
  Python strings are modelled as byte strings (UTF-8); every pattern the two modules
  search for (\<open>.pdf\<close>, \<open>arxiv\<close>, \<open>/\<close>, \<open>youtube.com\<close>) is ASCII, so the byte-level
  tests agree with the code-point tests of Python.
\<close>

text \<open>The values \<open>json.loads\<close> and the provider libraries hand to the code.\<close>

datatype json =
    JNull
  | JBool bool
  | JInt int
  | JFloat int int
  | JStr string
  | JArr "json list"
  | JObj "(string \<times> json) list"

text \<open>
  An exception carries its class and the text \<open>str(e)\<close> gives. \<open>catchable\<close> says
  whether the class derives from \<open>Exception\<close> (what \<open>except Exception\<close> catches);
  \<open>KeyboardInterrupt\<close> and \<open>SystemExit\<close> do not.
\<close>

datatype exn_class = KeyError | TypeError | AttributeError | IndexError
  | LibraryError string | NonException string

datatype exn = Exn exn_class string

fun exn_str :: "exn \<Rightarrow> string" where
  "exn_str (Exn c m) = m"

fun catchable :: "exn \<Rightarrow> bool" where
  "catchable (Exn (NonException n) m) = False"
| "catchable (Exn c m) = True"

text \<open>\<open>repr\<close> of a string without quotes, backslashes or control characters.\<close>

definition repr_str :: "string \<Rightarrow> string" where
  "repr_str s = [CHR 0x27] @ s @ [CHR 0x27]"

definition key_error :: "string \<Rightarrow> exn" where
  "key_error k = Exn KeyError (repr_str k)"

text \<open>What a call does to the outside world, in the order it does it.\<close>

datatype event =
    Print string
  | TavilySearch string string
  | HttpPost string "(string \<times> string) list" json
  | HttpGet string
  | SearxResults string string int
  | DdgsText string
  | WsSendJson json
  | GeckoInstall
  | DriverStart string "string option" "string list" "(string \<times> json) list"
  | DriverGet nat string
  | WaitBody nat
  | ExecuteScript nat string
  | PageSource nat
  | ReadFile string
  | PyMuPDFLoad string
  | ArxivRetrieve string
  | SummarizeText string string string nat
  | DriverQuit nat

text \<open>A computation: the events it caused and the exception raised or the value returned.\<close>

type_synonym 'a run = "event list \<times> (exn + 'a)"

definition ret :: "'a \<Rightarrow> 'a run" where
  "ret a = ([], Inr a)"

definition raise :: "exn \<Rightarrow> 'a run" where
  "raise e = ([], Inl e)"

definition lift :: "exn + 'a \<Rightarrow> 'a run" where
  "lift r = ([], r)"

definition act :: "event \<Rightarrow> exn + 'a \<Rightarrow> 'a run" where
  "act ev r = ([ev], r)"

definition bnd :: "'a run \<Rightarrow> ('a \<Rightarrow> 'b run) \<Rightarrow> 'b run" where
  "bnd m f = (case m of
     (es, Inl e) \<Rightarrow> (es, Inl e)
   | (es, Inr a) \<Rightarrow> (case f a of (es', r) \<Rightarrow> (es @ es', r)))"

definition events :: "'a run \<Rightarrow> event list" where
  "events m = fst m"

definition outcome :: "'a run \<Rightarrow> exn + 'a" where
  "outcome m = snd m"

subsection \<open>Operators of Python on these values\<close>

text \<open>\<open>pat in s\<close> for two strings.\<close>

fun str_contains :: "string \<Rightarrow> string \<Rightarrow> bool" where
  "str_contains pat [] = (pat = [])"
| "str_contains pat (c # cs) = (take (length pat) (c # cs) = pat \<or> str_contains pat cs)"

text \<open>\<open>s.endswith(suf)\<close>.\<close>

definition endswith :: "string \<Rightarrow> string \<Rightarrow> bool" where
  "endswith s suf = (length suf \<le> length s \<and> drop (length s - length suf) s = suf)"

text \<open>\<open>v[k]\<close> with a string key \<open>k\<close>.\<close>

fun py_getitem :: "json \<Rightarrow> string \<Rightarrow> exn + json" where
  "py_getitem (JObj kvs) k =
     (case map_of kvs k of None \<Rightarrow> Inl (key_error k) | Some v \<Rightarrow> Inr v)"
| "py_getitem (JStr s) k = Inl (Exn TypeError ''string indices must be integers'')"
| "py_getitem (JArr xs) k = Inl (Exn TypeError ''list indices must be integers or slices, not str'')"
| "py_getitem v k = Inl (Exn TypeError ''object is not subscriptable'')"

text \<open>\<open>v.get(k, default)\<close>: a method of dictionaries only.\<close>

fun py_get :: "json \<Rightarrow> string \<Rightarrow> json \<Rightarrow> exn + json" where
  "py_get (JObj kvs) k d = (case map_of kvs k of None \<Rightarrow> Inr d | Some v \<Rightarrow> Inr v)"
| "py_get v k d = Inl (Exn AttributeError ''object has no attribute 'get' '')"

text \<open>\<open>pat in v\<close>: substring of a string, element of a list, key of a dictionary.\<close>

fun py_in :: "string \<Rightarrow> json \<Rightarrow> exn + bool" where
  "py_in pat (JStr s) = Inr (str_contains pat s)"
| "py_in pat (JArr xs) = Inr (JStr pat \<in> set xs)"
| "py_in pat (JObj kvs) = Inr (pat \<in> fst ` set kvs)"
| "py_in pat v = Inl (Exn TypeError ''argument is not iterable'')"

text \<open>\<open>for x in v\<close>: the elements of a list, the keys of a dictionary, the characters of a string.\<close>

fun py_iter :: "json \<Rightarrow> exn + json list" where
  "py_iter (JArr xs) = Inr xs"
| "py_iter (JObj kvs) = Inr (map (\<lambda>kv. JStr (fst kv)) kvs)"
| "py_iter (JStr s) = Inr (map (\<lambda>c. JStr [c]) s)"
| "py_iter v = Inl (Exn TypeError ''object is not iterable'')"

text \<open>\<open>xs[:n]\<close>: a negative \<open>n\<close> counts from the end.\<close>

definition slice_to :: "'a list \<Rightarrow> int \<Rightarrow> 'a list" where
  "slice_to xs n = (if n < 0 then take (nat (int (length xs) + n)) xs else take (nat n) xs)"

text \<open>A list comprehension whose element expression may raise: the first exception ends it.\<close>

fun map_exn :: "('a \<Rightarrow> exn + 'b) \<Rightarrow> 'a list \<Rightarrow> exn + 'b list" where
  "map_exn f [] = Inr []"
| "map_exn f (x # xs) =
     (case f x of
        Inl e \<Rightarrow> Inl e
      | Inr y \<Rightarrow> (case map_exn f xs of Inl e \<Rightarrow> Inl e | Inr ys \<Rightarrow> Inr (y # ys)))"

text \<open>\<open>os.environ[k]\<close>.\<close>

definition environ_get :: "(string \<rightharpoonup> string) \<Rightarrow> string \<Rightarrow> exn + string" where
  "environ_get env k = (case env k of None \<Rightarrow> Inl (key_error k) | Some v \<Rightarrow> Inr v)"

section \<open>The search client (\<open>actions/web_search.py\<close>)\<close>

text \<open>
  The configuration, the environment and the answers of the outside world to each call
  the search client makes. \<open>requests.request\<close> and \<open>requests.get\<close> raise or return a
  response, of which the code reads only \<open>text\<close> (\<open>None\<close> stands for the \<open>None\<close> the
  code tests for); \<open>json_loads\<close> is \<open>json.loads\<close>. The string \<open>json.dumps(v, ...)\<close> returns
  is represented by \<open>v\<close> itself.
\<close>

record search_world =
  search_api :: string
  environ :: "string \<rightharpoonup> string"
  tavily_search :: "string \<Rightarrow> string \<Rightarrow> exn + json"
  requests_post :: "string \<Rightarrow> (string \<times> string) list \<Rightarrow> json \<Rightarrow> exn + string option"
  requests_get :: "string \<Rightarrow> exn + string option"
  json_loads :: "string \<Rightarrow> exn + json"
  searx_results :: "string \<Rightarrow> string \<Rightarrow> int \<Rightarrow> exn + json list"
  ddgs_text :: "string \<Rightarrow> exn + json list"

text \<open>What a search function returns: \<open>None\<close> (a bare \<open>return\<close>) or \<open>json.dumps(v)\<close>.\<close>

datatype search_ret = RetNone | RetDumps json

definition searching_msg :: "string \<Rightarrow> string" where
  "searching_msg query = ''Searching with query '' @ query @ ''...''"

text \<open>The body of the normalising loop of \<open>serp_web_search\<close> and \<open>google_web_search\<close>:
  \<open>None\<close> is \<open>continue\<close>, \<open>Some d\<close> the dictionary appended.\<close>

definition normalize_result :: "json \<Rightarrow> exn + json option" where
  "normalize_result result =
     (case py_getitem result ''link'' of
        Inl e \<Rightarrow> Inl e
      | Inr l \<Rightarrow>
        (case py_in ''youtube.com'' l of
           Inl e \<Rightarrow> Inl e
         | Inr True \<Rightarrow> Inr None
         | Inr False \<Rightarrow>
           (case py_getitem result ''title'' of
              Inl e \<Rightarrow> Inl e
            | Inr t \<Rightarrow>
              (case py_getitem result ''link'' of
                 Inl e \<Rightarrow> Inl e
               | Inr h \<Rightarrow>
                 (case py_getitem result ''snippet'' of
                    Inl e \<Rightarrow> Inl e
                  | Inr b \<Rightarrow> Inr (Some (JObj [(''title'', t), (''href'', h), (''body'', b)])))))))"

fun normalize_loop :: "json list \<Rightarrow> json list \<Rightarrow> exn + json list" where
  "normalize_loop [] search_results = Inr search_results"
| "normalize_loop (result # results) search_results =
     (case normalize_result result of
        Inl e \<Rightarrow> Inl e
      | Inr None \<Rightarrow> normalize_loop results search_results
      | Inr (Some d) \<Rightarrow> normalize_loop results (search_results @ [d]))"

definition serp_url :: string where
  "serp_url = ''https://google.serper.dev/search''"

definition serp_payload :: "string \<Rightarrow> int \<Rightarrow> json" where
  "serp_payload query num_results = JObj [(''q'', JStr query), (''num'', JInt num_results)]"

definition serp_headers :: "string \<Rightarrow> (string \<times> string) list" where
  "serp_headers serp_api_key =
     [(''X-API-KEY'', serp_api_key), (''Content-Type'', ''application/json'')]"

definition serp_web_search :: "search_world \<Rightarrow> string \<Rightarrow> string \<Rightarrow> int \<Rightarrow> search_ret run" where
  "serp_web_search W serp_api_key query num_results =
     (let url = serp_url;
          payload = serp_payload query num_results;
          headers = serp_headers serp_api_key
      in bnd (act (HttpPost url headers payload) (requests_post W url headers payload)) (\<lambda>resp.
         case resp of
           None \<Rightarrow> ret RetNone
         | Some text \<Rightarrow>
           (case json_loads W text of
              Inl e \<Rightarrow> (if catchable e then ret RetNone else raise e)
            | Inr search_results \<Rightarrow>
                if search_results = JNull then ret RetNone
                else
                bnd (lift (py_getitem search_results ''organic'')) (\<lambda>results.
                bnd (lift (py_iter results)) (\<lambda>rs.
                bnd (lift (normalize_loop rs [])) (\<lambda>search_results.
                bnd (act (Print (searching_msg query)) (Inr ())) (\<lambda>_.
                ret (RetDumps (JArr search_results)))))))))"

definition google_url :: "string \<Rightarrow> string \<Rightarrow> string \<Rightarrow> string" where
  "google_url google_api_key google_cx query =
     ''https://www.googleapis.com/customsearch/v1?key='' @ google_api_key
     @ ''&cx='' @ google_cx @ ''&q='' @ query @ ''&start=1''"

definition google_web_search ::
  "search_world \<Rightarrow> string \<Rightarrow> string \<Rightarrow> string \<Rightarrow> int \<Rightarrow> search_ret run" where
  "google_web_search W google_api_key google_cx query num_result =
     (let url = google_url google_api_key google_cx query
      in bnd (act (HttpGet url) (requests_get W url)) (\<lambda>resp.
         case resp of
           None \<Rightarrow> ret RetNone
         | Some text \<Rightarrow>
           (case json_loads W text of
              Inl e \<Rightarrow> (if catchable e then ret RetNone else raise e)
            | Inr search_results \<Rightarrow>
                if search_results = JNull then ret RetNone
                else
                bnd (lift (py_get search_results ''items'' (JArr []))) (\<lambda>results.
                bnd (lift (py_iter results)) (\<lambda>rs.
                bnd (lift (normalize_loop rs [])) (\<lambda>search_results.
                bnd (act (Print (searching_msg query)) (Inr ())) (\<lambda>_.
                ret (RetDumps (JArr (slice_to search_results num_result))))))))))"

text \<open>The two list comprehensions of \<open>web_search\<close>.\<close>

definition tavily_normalize :: "json \<Rightarrow> exn + json" where
  "tavily_normalize obj =
     (case py_getitem obj ''url'' of
        Inl e \<Rightarrow> Inl e
      | Inr h \<Rightarrow>
        (case py_getitem obj ''content'' of
           Inl e \<Rightarrow> Inl e
         | Inr b \<Rightarrow> Inr (JObj [(''href'', h), (''body'', b)])))"

definition searx_normalize :: "json \<Rightarrow> exn + json" where
  "searx_normalize obj =
     (case py_getitem obj ''link'' of
        Inl e \<Rightarrow> Inl e
      | Inr h \<Rightarrow>
        (case py_getitem obj ''snippet'' of
           Inl e \<Rightarrow> Inl e
         | Inr b \<Rightarrow> Inr (JObj [(''href'', h), (''body'', b)])))"

text \<open>The final loop of \<open>web_search\<close>: append, count, then test the count and \<open>break\<close>.\<close>

fun add_results :: "json list \<Rightarrow> json list \<Rightarrow> int \<Rightarrow> int \<Rightarrow> json list" where
  "add_results [] search_results total_added num_results = search_results"
| "add_results (j # js) search_results total_added num_results =
     (if total_added + 1 \<ge> num_results then search_results @ [j]
      else add_results js (search_results @ [j]) (total_added + 1) num_results)"

definition web_search :: "search_world \<Rightarrow> string \<Rightarrow> int \<Rightarrow> search_ret run" where
  "web_search W query num_results =
     bnd (act (Print (searching_msg query)) (Inr ())) (\<lambda>_.
     if query = [] then ret (RetDumps (JArr []))
     else if search_api W = ''tavily'' then
       bnd (lift (environ_get (environ W) ''TAVILY_API_KEY'')) (\<lambda>key.
       bnd (act (TavilySearch key query) (tavily_search W key query)) (\<lambda>response.
       bnd (lift (py_get response ''results'' (JArr []))) (\<lambda>results.
       bnd (lift (py_iter results)) (\<lambda>rs.
       bnd (lift (map_exn tavily_normalize rs)) (\<lambda>search_response.
       ret (RetDumps (JArr (add_results search_response [] 0 num_results))))))))
     else if search_api W = ''googleSerp'' then
       bnd (lift (environ_get (environ W) ''SERP_API_KEY'')) (\<lambda>key.
       serp_web_search W key query num_results)
     else if search_api W = ''googleAPI'' then
       bnd (lift (environ_get (environ W) ''GOOGLE_API_KEY'')) (\<lambda>key.
       bnd (lift (environ_get (environ W) ''GOOGLE_CX'')) (\<lambda>cx.
       google_web_search W key cx query num_results))
     else if search_api W = ''searx'' then
       bnd (lift (environ_get (environ W) ''SEARX_URL'')) (\<lambda>host.
       bnd (act (SearxResults host query num_results) (searx_results W host query num_results)) (\<lambda>results.
       bnd (lift (map_exn searx_normalize results)) (\<lambda>search_response.
       ret (RetDumps (JArr (add_results search_response [] 0 num_results))))))
     else if search_api W = ''duckduckgo'' then
       bnd (act (DdgsText query) (ddgs_text W query)) (\<lambda>search_response.
       ret (RetDumps (JArr (add_results search_response [] 0 num_results))))
     else ret (RetDumps (JArr (add_results [] [] 0 num_results))))"

section \<open>The page fetcher (\<open>actions/web_scrape.py\<close>)\<close>

subsection \<open>String methods used by the text clean-up\<close>

text \<open>
  Whitespace and line boundaries as Python defines them on ASCII; the non-ASCII ones
  (U+0085, U+00A0, U+2028, ...) are not modelled, and no property below depends on
  the clean-up.
\<close>

definition is_space :: "char \<Rightarrow> bool" where
  "is_space c = (c \<in> set (map char_of [0x09, 0x0A, 0x0B, 0x0C, 0x0D, 0x1C, 0x1D, 0x1E, 0x1F, 0x20 :: nat]))"

definition is_linebreak :: "char \<Rightarrow> bool" where
  "is_linebreak c = (c \<in> set (map char_of [0x0A, 0x0B, 0x0C, 0x0D, 0x1C, 0x1D, 0x1E :: nat]))"

definition strip :: "string \<Rightarrow> string" where
  "strip s = rev (dropWhile is_space (rev (dropWhile is_space s)))"

fun splitlines_from :: "string \<Rightarrow> string \<Rightarrow> string list" where
  "splitlines_from cur [] = (if cur = [] then [] else [cur])"
| "splitlines_from cur (c # cs) =
     (if c = CHR 0x0D then
        (case cs of
           [] \<Rightarrow> [cur]
         | d # ds \<Rightarrow> if d = CHR 0x0A then cur # splitlines_from [] ds
                     else cur # splitlines_from [] (d # ds))
      else if is_linebreak c then cur # splitlines_from [] cs
      else splitlines_from (cur @ [c]) cs)"

definition splitlines :: "string \<Rightarrow> string list" where
  "splitlines s = splitlines_from [] s"

text \<open>\<open>s.split(sep)\<close> for a non-empty separator (Python raises on the empty one).\<close>

function split_str :: "string \<Rightarrow> string \<Rightarrow> string list" where
  "split_str sep [] = [[]]"
| "split_str sep (c # cs) =
     (if sep \<noteq> [] \<and> take (length sep) (c # cs) = sep
      then [] # split_str sep (drop (length sep) (c # cs))
      else (case split_str sep cs of
              [] \<Rightarrow> [[c]]
            | w # ws \<Rightarrow> (c # w) # ws))"
  by pat_completeness auto
termination
  by (relation "measure (\<lambda>(sep, s). length s)") (auto simp: neq_Nil_conv)

fun join :: "string \<Rightarrow> string list \<Rightarrow> string" where
  "join sep [] = []"
| "join sep [x] = x"
| "join sep (x # y # ys) = x @ sep @ join sep (y # ys)"

text \<open>Lines 171 to 173 of \<open>scrape_text_with_selenium\<close>.\<close>

definition clean_text :: "string \<Rightarrow> string" where
  "clean_text text =
     (let lines = map strip (splitlines text);
          chunks = concat (map (\<lambda>line. map strip (split_str ''  '' line)) lines)
      in join [CHR 0x0A] (filter (\<lambda>chunk. chunk \<noteq> []) chunks))"

text \<open>\<open>repr\<close> of a list of strings, as an f-string prints it.\<close>

definition repr_list :: "string list \<Rightarrow> string" where
  "repr_list xs = ''['' @ join '', '' (map repr_str xs) @ '']''"

subsection \<open>The browser, the libraries and the collaborators\<close>

text \<open>
  The configuration and the answers of the outside world to each call the fetcher makes.
  A browser session is a handle (a number) that \<open>driver_new\<close> returns.
  \<open>find_all_text src tags\<close> stands for parsing \<open>src\<close> with BeautifulSoup, removing the
  script and style elements, and reading \<open>element.text\<close> of each \<open>find_all(tags)\<close>
  element. \<open>hyperlinks src url\<close> stands for the same parse and removal followed by
  \<open>extract_hyperlinks\<close> and \<open>format_hyperlinks\<close> of \<open>processing.html\<close>, which is not part of
  the sources at hand.
\<close>

record fetch_world =
  selenium_web_browser :: string
  user_agent :: string
  platform :: string
  file_dir :: string
  gecko_install :: "exn + string"
  driver_new :: "string \<Rightarrow> string option \<Rightarrow> string list \<Rightarrow> (string \<times> json) list \<Rightarrow> exn + nat"
  driver_get :: "nat \<Rightarrow> string \<Rightarrow> exn + unit"
  wait_body :: "nat \<Rightarrow> exn + unit"
  execute_script :: "nat \<Rightarrow> string \<Rightarrow> exn + string"
  find_all_text :: "string \<Rightarrow> string list \<Rightarrow> exn + string list"
  pymupdf_load :: "string \<Rightarrow> exn + string"
  arxiv_documents :: "string \<Rightarrow> exn + string list"
  read_file :: "string \<Rightarrow> exn + string"
  summarize_text :: "string \<Rightarrow> string \<Rightarrow> string \<Rightarrow> nat \<Rightarrow> exn + string"
  page_source :: "nat \<Rightarrow> exn + string"
  hyperlinks :: "string \<Rightarrow> string \<Rightarrow> exn + string list"
  driver_quit :: "nat \<Rightarrow> exn + unit"
  ws_send_json :: "json \<Rightarrow> exn + unit"

text \<open>\<open>try: m except Exception as e: h e\<close>.\<close>

definition try_except :: "'a run \<Rightarrow> (exn \<Rightarrow> 'a run) \<Rightarrow> 'a run" where
  "try_except m h = (case m of
     (es, Inr a) \<Rightarrow> (es, Inr a)
   | (es, Inl e) \<Rightarrow>
       if catchable e then (case h e of (es', r) \<Rightarrow> (es @ es', r)) else (es, Inl e))"

subsection \<open>The functions of the module\<close>

definition scrape_pdf_with_pymupdf :: "fetch_world \<Rightarrow> string \<Rightarrow> string run" where
  "scrape_pdf_with_pymupdf W url = act (PyMuPDFLoad url) (pymupdf_load W url)"

definition scrape_pdf_with_arxiv :: "fetch_world \<Rightarrow> string \<Rightarrow> string run" where
  "scrape_pdf_with_arxiv W query =
     bnd (act (ArxivRetrieve query) (arxiv_documents W query)) (\<lambda>docs.
     case docs of
       [] \<Rightarrow> raise (Exn IndexError ''list index out of range'')
     | d # ds \<Rightarrow> ret d)"

definition get_text :: "fetch_world \<Rightarrow> string \<Rightarrow> string run" where
  "get_text W soup =
     bnd (lift (find_all_text W soup [''h1'', ''h2'', ''h3'', ''h4'', ''h5'', ''p''])) (\<lambda>elements.
     ret (concat (map (\<lambda>element. element @ [CHR 0x0A, CHR 0x0A]) elements)))"

definition close_browser :: "fetch_world \<Rightarrow> nat \<Rightarrow> unit run" where
  "close_browser W driver = act (DriverQuit driver) (driver_quit W driver)"

definition add_header :: "fetch_world \<Rightarrow> nat \<Rightarrow> unit run" where
  "add_header W driver =
     (let path = file_dir W @ ''/js/overlay.js''
      in bnd (act (ReadFile path) (read_file W path)) (\<lambda>script.
         bnd (act (ExecuteScript driver script) (execute_script W driver script)) (\<lambda>_.
         ret ())))"

definition scrape_links_with_selenium :: "fetch_world \<Rightarrow> nat \<Rightarrow> string \<Rightarrow> string list run" where
  "scrape_links_with_selenium W driver url =
     bnd (act (PageSource driver) (page_source W driver)) (\<lambda>src.
     lift (hyperlinks W src url))"

text \<open>Lines 118 to 151 of \<open>scrape_text_with_selenium\<close>: choose the options, start the
  browser, navigate, wait for the body.\<close>

definition open_session :: "fetch_world \<Rightarrow> string \<Rightarrow> nat run" where
  "open_session W url =
     (let browser = selenium_web_browser W in
      if browser \<notin> set [''chrome'', ''safari'', ''firefox''] then raise (key_error browser)
      else
        let args = [''user-agent='' @ user_agent W, ''--headless'', ''--enable-javascript''] in
        bnd (if browser = ''firefox'' then
               bnd (act GeckoInstall (gecko_install W)) (\<lambda>path.
               act (DriverStart ''Firefox'' (Some path) args [])
                   (driver_new W ''Firefox'' (Some path) args []))
             else if browser = ''safari'' then
               act (DriverStart ''Safari'' None args []) (driver_new W ''Safari'' None args [])
             else
               (let args' = args
                      @ (if platform W = ''linux'' \<or> platform W = ''linux2''
                         then [''--disable-dev-shm-usage'', ''--remote-debugging-port=9222'']
                         else [])
                      @ [''--no-sandbox''];
                    prefs = [(''prefs'', JObj [(''download_restrictions'', JInt 3)])]
                in act (DriverStart ''Chrome'' None args' prefs)
                       (driver_new W ''Chrome'' None args' prefs))) (\<lambda>driver.
        bnd (act (Print (''scraping url '' @ url @ ''...'')) (Inr ())) (\<lambda>_.
        bnd (act (DriverGet driver url) (driver_get W driver url)) (\<lambda>_.
        bnd (act (WaitBody driver) (wait_body W driver)) (\<lambda>_.
        ret driver)))))"

text \<open>Lines 153 to 169: the branch on the kind of URL.\<close>

definition extract_content :: "fetch_world \<Rightarrow> nat \<Rightarrow> string \<Rightarrow> string run" where
  "extract_content W driver url =
     (if endswith url ''.pdf'' then scrape_pdf_with_pymupdf W url
      else if str_contains ''arxiv'' url then
        (let doc_num = last (split_str ''/'' url) in scrape_pdf_with_arxiv W doc_num)
      else
        (let js = ''return document.body.outerHTML;'' in
         bnd (act (ExecuteScript driver js) (execute_script W driver js)) (\<lambda>page_source.
         get_text W page_source)))"

definition scrape_text_with_selenium :: "fetch_world \<Rightarrow> string \<Rightarrow> (nat \<times> string) run" where
  "scrape_text_with_selenium W url =
     bnd (open_session W url) (\<lambda>driver.
     bnd (extract_content W driver url) (\<lambda>text.
     ret (driver, clean_text text)))"

definition no_url_message :: string where
  "no_url_message = map char_of
     [0x55, 0x52, 0x4C, 0xE3, 0x81, 0x8C, 0xE6, 0x8C, 0x87, 0xE5, 0xAE, 0x9A, 0xE3, 0x81, 0x95, 0xE3,
      0x82, 0x8C, 0xE3, 0x81, 0xA6, 0xE3, 0x81, 0x84, 0xE3, 0x81, 0xAA, 0xE3, 0x81, 0x84, 0xE3, 0x81,
      0x9F, 0xE3, 0x82, 0x81, 0xE3, 0x80, 0x81, 0xE3, 0x82, 0xA6, 0xE3, 0x82, 0xA7, 0xE3, 0x83, 0x96,
      0xE3, 0x82, 0xB5, 0xE3, 0x82, 0xA4, 0xE3, 0x83, 0x88, 0xE9, 0x96, 0xB2, 0xE8, 0xA6, 0xA7, 0xE3,
      0x81, 0xAE, 0xE3, 0x83, 0xAA, 0xE3, 0x82, 0xAF, 0xE3, 0x82, 0xA8, 0xE3, 0x82, 0xB9, 0xE3, 0x83,
      0x88, 0xE3, 0x82, 0x92, 0xE3, 0x82, 0xAD, 0xE3, 0x83, 0xA3, 0xE3, 0x83, 0xB3, 0xE3, 0x82, 0xBB,
      0xE3, 0x83, 0xAB, 0xE3, 0x81, 0x97, 0xE3, 0x81, 0xBE, 0xE3, 0x81, 0x97, 0xE3, 0x81, 0x9F, 0xE3,
      0x80, 0x82 :: nat]"

definition browse_website :: "fetch_world \<Rightarrow> string \<Rightarrow> string \<Rightarrow> (string \<times> nat option) run" where
  "browse_website W url question =
     (if url = [] then ret (no_url_message, None)
      else
        bnd (scrape_text_with_selenium W url) (\<lambda>(driver, text).
        bnd (add_header W driver) (\<lambda>_.
        bnd (act (SummarizeText url text question driver)
                 (summarize_text W url text question driver)) (\<lambda>summary_text.
        bnd (scrape_links_with_selenium W driver url) (\<lambda>links.
        let links = (if length links > 5 then take 5 links else links) in
        bnd (close_browser W driver) (\<lambda>_.
        ret (''Answer gathered from website: '' @ summary_text
               @ [CHR '' '', CHR 0x0A, CHR '' '', CHR 0x0A] @ '' Links: '' @ repr_list links,
             Some driver)))))))"

text \<open>The fixed parts of the progress texts of \<open>async_browse\<close> (UTF-8).\<close>

definition scraping_msg :: "string \<Rightarrow> string \<Rightarrow> string" where
  "scraping_msg question url =
     question @ map char_of [0xE3, 0x81, 0xA7, 0x20 :: nat] @ url
     @ map char_of
     [0xE3, 0x82, 0x92, 0xE3, 0x82, 0xB9, 0xE3, 0x82, 0xAF, 0xE3, 0x83, 0xAC, 0xE3, 0x82, 0xA4, 0xE3,
      0x83, 0x94, 0xE3, 0x83, 0xB3, 0xE3, 0x82, 0xB0, 0xE4, 0xB8, 0xAD :: nat]"

definition browsing_msg :: "string \<Rightarrow> string \<Rightarrow> string" where
  "browsing_msg url question =
     map char_of [0xF0, 0x9F, 0x94, 0x8E, 0x20, 0x20 :: nat] @ url
     @ map char_of
     [0x20, 0xE3, 0x82, 0x92, 0xE3, 0x83, 0x96, 0xE3, 0x83, 0xA9, 0xE3, 0x82, 0xA6, 0xE3, 0x82, 0xB8,
      0xE3, 0x83, 0xB3, 0xE3, 0x82, 0xB0, 0xE3, 0x81, 0x97, 0xE3, 0x81, 0xA6, 0xE3, 0x81, 0x84, 0xE3,
      0x81, 0xBE, 0xE3, 0x81, 0x99, 0xE3, 0x80, 0x82, 0x20, 0xE8, 0xB3, 0xAA, 0xE5, 0x95, 0x8F, 0xE5,
      0x86, 0x85, 0xE5, 0xAE, 0xB9, 0x3A, 0x20 :: nat]
     @ question @ ''...''"

definition gathered_msg :: "string \<Rightarrow> string \<Rightarrow> string" where
  "gathered_msg url summary_text =
     map char_of
     [0xF0, 0x9F, 0x93, 0x9D, 0x20, 0x55, 0x52, 0x4C, 0xE3, 0x81, 0x8B, 0xE3, 0x82, 0x89, 0xE5, 0x8F,
      0x8E, 0xE9, 0x9B, 0x86, 0xE3, 0x81, 0x97, 0xE3, 0x81, 0x9F, 0xE6, 0x83, 0x85, 0xE5, 0xA0, 0xB1,
      0x20 :: nat]
     @ url @ '': '' @ summary_text"

definition logs_message :: "string \<Rightarrow> json" where
  "logs_message output = JObj [(''type'', JStr ''logs''), (''output'', JStr output)]"

text \<open>
  The three submissions to the worker pool are awaited one after the other, so the
  asynchronous entry point is the same sequence of calls as a sequential program.
\<close>

definition async_browse :: "fetch_world \<Rightarrow> string \<Rightarrow> string \<Rightarrow> string run" where
  "async_browse W url question =
     bnd (act (Print (scraping_msg question url)) (Inr ())) (\<lambda>_.
     bnd (act (WsSendJson (logs_message (browsing_msg url question)))
              (ws_send_json W (logs_message (browsing_msg url question)))) (\<lambda>_.
     try_except
       (bnd (scrape_text_with_selenium W url) (\<lambda>(driver, text).
        bnd (add_header W driver) (\<lambda>_.
        bnd (act (SummarizeText url text question driver)
                 (summarize_text W url text question driver)) (\<lambda>summary_text.
        bnd (act (WsSendJson (logs_message (gathered_msg url summary_text)))
                 (ws_send_json W (logs_message (gathered_msg url summary_text)))) (\<lambda>_.
        ret (''Information gathered from url '' @ url @ '': '' @ summary_text))))))
       (\<lambda>e.
        bnd (act (Print (''An error occurred while processing the url '' @ url @ '': '' @ exn_str e))
                 (Inr ())) (\<lambda>_.
        ret (''Error processing the url '' @ url @ '': '' @ exn_str e)))))"

section \<open>Notions used in the statements\<close>

text \<open>A provider result that the skip rule of the two normalising loops drops.\<close>

definition has_youtube_link :: "json \<Rightarrow> bool" where
  "has_youtube_link result =
     (case py_getitem result ''link'' of
        Inl e \<Rightarrow> False
      | Inr l \<Rightarrow> py_in ''youtube.com'' l = Inr True)"

text \<open>The final \<open>/\<close>-delimited segment of a string: what follows its last \<open>/\<close>.\<close>

definition final_segment :: "string \<Rightarrow> string" where
  "final_segment s = rev (takeWhile (\<lambda>c. c \<noteq> CHR ''/'') (rev s))"

section \<open>Concrete surroundings\<close>

text \<open>
  A search provider that knows three pages, the second one a video; the same three
  results in the shape each provider library gives them.
\<close>

definition serp_results :: "json list" where
  "serp_results =
     [JObj [(''title'', JStr ''a''), (''link'', JStr ''http://a.org''), (''snippet'', JStr ''x'')],
      JObj [(''title'', JStr ''v''), (''link'', JStr ''http://youtube.com/v''), (''snippet'', JStr ''y'')],
      JObj [(''title'', JStr ''b''), (''link'', JStr ''http://b.org''), (''snippet'', JStr ''z'')]]"

definition serp_text :: string where
  \<open>serp_text = ''{"organic": [{"title": "a", "link": "http://a.org", "snippet": "x"}, {"title": "v", "link": "http://youtube.com/v", "snippet": "y"}, {"title": "b", "link": "http://b.org", "snippet": "z"}]}''\<close>

definition google_text :: string where
  \<open>google_text = ''{"items": [{"title": "a", "link": "http://a.org", "snippet": "x"}, {"title": "v", "link": "http://youtube.com/v", "snippet": "y"}, {"title": "b", "link": "http://b.org", "snippet": "z"}]}''\<close>

definition tavily_response :: json where
  "tavily_response = JObj [(''results'',
     JArr [JObj [(''url'', JStr ''http://a.org''), (''content'', JStr ''x'')],
           JObj [(''url'', JStr ''http://youtube.com/v''), (''content'', JStr ''y'')],
           JObj [(''url'', JStr ''http://b.org''), (''content'', JStr ''z'')]])]"

definition ddgs_results :: "json list" where
  "ddgs_results =
     [JObj [(''title'', JStr ''a''), (''href'', JStr ''http://a.org''), (''body'', JStr ''x'')],
      JObj [(''title'', JStr ''v''), (''href'', JStr ''http://youtube.com/v''), (''body'', JStr ''y'')],
      JObj [(''title'', JStr ''b''), (''href'', JStr ''http://b.org''), (''body'', JStr ''z'')]]"

text \<open>\<open>json.loads\<close> on the three texts that occur below; anything else is not JSON here.\<close>

definition sample_json_loads :: "string \<Rightarrow> exn + json" where
  "sample_json_loads s =
     (if s = serp_text then Inr (JObj [(''organic'', JArr serp_results)])
      else if s = google_text then Inr (JObj [(''items'', JArr serp_results)])
      else if s = ''{}'' then Inr (JObj [])
      else Inl (Exn (LibraryError ''JSONDecodeError'') ''Expecting value: line 1 column 1 (char 0)''))"

definition sample_search_world :: "string \<Rightarrow> search_world" where
  "sample_search_world api =
     \<lparr> search_api = api,
       environ = (\<lambda>k. Some ''secret''),
       tavily_search = (\<lambda>key query. Inr tavily_response),
       requests_post = (\<lambda>url headers payload. Inr (Some serp_text)),
       requests_get = (\<lambda>url. Inr (Some google_text)),
       json_loads = sample_json_loads,
       searx_results = (\<lambda>host query n. Inr serp_results),
       ddgs_text = (\<lambda>query. Inr ddgs_results) \<rparr>"

text \<open>A provider that answers with one result whose URL is the empty string.\<close>

definition empty_url_world :: search_world where
  "empty_url_world = (sample_search_world ''tavily'')
     \<lparr> tavily_search := (\<lambda>key query.
         Inr (JObj [(''results'', JArr [JObj [(''url'', JStr []), (''content'', JStr ''x'')]])])) \<rparr>"

text \<open>A SERP provider whose answer is a JSON object without the key \<open>organic\<close>, and one
  that cannot be reached.\<close>

definition no_organic_world :: search_world where
  "no_organic_world = (sample_search_world ''googleSerp'')
     \<lparr> requests_post := (\<lambda>url headers payload. Inr (Some ''{}'')) \<rparr>"

definition unreachable_world :: search_world where
  "unreachable_world = (sample_search_world ''googleSerp'')
     \<lparr> requests_post := (\<lambda>url headers payload.
         Inl (Exn (LibraryError ''ConnectionError'') ''Max retries exceeded'')) \<rparr>"

text \<open>
  A machine with Chrome on Linux where every call succeeds, except that the browser
  refuses to navigate to the empty URL.
\<close>

definition sample_fetch_world :: fetch_world where
  "sample_fetch_world =
     \<lparr> selenium_web_browser = ''chrome'',
       user_agent = ''Mozilla/5.0'',
       platform = ''linux'',
       file_dir = ''/app'',
       gecko_install = Inr ''/opt/geckodriver'',
       driver_new = (\<lambda>cls path args prefs. Inr 7),
       driver_get = (\<lambda>driver url.
         if url = [] then Inl (Exn (LibraryError ''InvalidArgumentException'') ''invalid argument'')
         else Inr ()),
       wait_body = (\<lambda>driver. Inr ()),
       execute_script = (\<lambda>driver js. Inr ''<body><p>Hello</p></body>''),
       find_all_text = (\<lambda>src tags. Inr [''Hello'']),
       pymupdf_load = (\<lambda>url. Inr ''pdf text''),
       arxiv_documents = (\<lambda>query. Inr [''paper'']),
       read_file = (\<lambda>path. Inr ''overlay();''),
       summarize_text = (\<lambda>url text question driver. Inr ''summary''),
       page_source = (\<lambda>driver. Inr ''<html></html>''),
       hyperlinks = (\<lambda>src url. Inr []),
       driver_quit = (\<lambda>driver. Inr ()),
       ws_send_json = (\<lambda>msg. Inr ()) \<rparr>"

text \<open>The same machine with a page that never shows its body, and with a summarizer
  that fails.\<close>

definition timeout_world :: fetch_world where
  "timeout_world = sample_fetch_world
     \<lparr> wait_body := (\<lambda>driver. Inl (Exn (LibraryError ''TimeoutException'') ''Message: '')) \<rparr>"

definition failing_summarizer_world :: fetch_world where
  "failing_summarizer_world = sample_fetch_world
     \<lparr> summarize_text := (\<lambda>url text question driver.
         Inl (Exn (LibraryError ''RateLimitError'') ''rate limit reached'')) \<rparr>"

section \<open>Properties of the search client\<close>

lemma bnd_ret [simp]: "bnd (ret a) f = f a"
  by (simp add: bnd_def ret_def split: prod.splits)

lemma bnd_raise [simp]: "bnd (raise e) f = raise e"
  by (simp add: bnd_def raise_def)

lemma bnd_lift_Inr [simp]: "bnd (lift (Inr a)) f = f a"
  by (simp add: bnd_def lift_def split: prod.splits)

lemma bnd_lift_Inl [simp]: "bnd (lift (Inl e)) f = raise e"
  by (simp add: bnd_def lift_def raise_def)

lemma bnd_act_Inr [simp]: "bnd (act ev (Inr a)) f = ([ev] @ fst (f a), snd (f a))"
  by (simp add: bnd_def act_def split: prod.splits)

lemma bnd_act_Inl [simp]: "bnd (act ev (Inl e)) f = ([ev], Inl e)"
  by (simp add: bnd_def act_def)

lemma add_results_take:
  "add_results xs acc t n = acc @ take (nat (max 1 (n - t))) xs"
proof (induction xs arbitrary: acc t)
  case Nil
  then show ?case by simp
next
  case (Cons j js)
  show ?case
  proof (cases "t + 1 \<ge> n")
    case True
    then have "nat (max 1 (n - t)) = Suc 0" by simp
    with True show ?thesis by simp
  next
    case False
    then have "nat (max 1 (n - t)) = Suc (nat (max 1 (n - (t + 1))))" by simp
    with False Cons.IH show ?thesis by simp
  qed
qed

lemma normalize_result_None:
  "normalize_result r = Inr None \<Longrightarrow> has_youtube_link r"
  by (auto simp: normalize_result_def has_youtube_link_def split: sum.splits bool.splits if_splits)

lemma normalize_result_Some:
  "normalize_result r = Inr (Some d) \<Longrightarrow>
     \<not> has_youtube_link r \<and>
     (\<exists>t h b. py_getitem r ''title'' = Inr t \<and> py_getitem r ''link'' = Inr h \<and>
        py_getitem r ''snippet'' = Inr b \<and> py_in ''youtube.com'' h = Inr False \<and>
        d = JObj [(''title'', t), (''href'', h), (''body'', b)])"
  by (auto simp: normalize_result_def has_youtube_link_def split: sum.splits bool.splits if_splits)

lemma normalize_loop_spec:
  "normalize_loop rs acc = Inr out \<Longrightarrow>
     \<exists>ds. out = acc @ ds \<and>
       map (\<lambda>d. py_getitem d ''href'') ds =
         map (\<lambda>r. py_getitem r ''link'') (filter (\<lambda>r. \<not> has_youtube_link r) rs) \<and>
       (\<forall>d\<in>set ds. \<exists>t h b. d = JObj [(''title'', t), (''href'', h), (''body'', b)] \<and>
           py_in ''youtube.com'' h = Inr False)"
proof (induction rs arbitrary: acc)
  case Nil
  then show ?case by simp
next
  case (Cons r rs)
  show ?case
  proof (cases "normalize_result r")
    case (Inl e)
    with Cons.prems show ?thesis by simp
  next
    case (Inr o1)
    show ?thesis
    proof (cases o1)
      case None
      with Inr Cons.prems have "normalize_loop rs acc = Inr out" by simp
      from Cons.IH[OF this] None Inr normalize_result_None[of r]
      show ?thesis by auto
    next
      case (Some d)
      with Inr Cons.prems have "normalize_loop rs (acc @ [d]) = Inr out" by simp
      from Cons.IH[OF this] obtain ds where ds: "out = (acc @ [d]) @ ds"
        "map (\<lambda>d. py_getitem d ''href'') ds =
         map (\<lambda>r. py_getitem r ''link'') (filter (\<lambda>r. \<not> has_youtube_link r) rs)"
        "(\<forall>d\<in>set ds. \<exists>t h b. d = JObj [(''title'', t), (''href'', h), (''body'', b)] \<and>
           py_in ''youtube.com'' h = Inr False)" by blast
      from normalize_result_Some[of r d] Some Inr
      obtain t h b where thb: "\<not> has_youtube_link r" "py_getitem r ''link'' = Inr h"
        "py_in ''youtube.com'' h = Inr False" "d = JObj [(''title'', t), (''href'', h), (''body'', b)]"
        by auto
      have "py_getitem d ''href'' = Inr h" using thb(4) by simp
      with ds thb show ?thesis
        by (intro exI[of _ "d # ds"]) auto
    qed
  qed
qed

lemma serp_ok:
  assumes "outcome (serp_web_search W key q n) = Inr (RetDumps (JArr out))"
  shows "\<exists>text response results rs.
           requests_post W serp_url (serp_headers key) (serp_payload q n) = Inr (Some text) \<and>
           json_loads W text = Inr response \<and>
           py_getitem response ''organic'' = Inr results \<and>
           py_iter results = Inr rs \<and>
           normalize_loop rs [] = Inr out"
  using assms
  by (auto simp: serp_web_search_def Let_def outcome_def bnd_def act_def ret_def raise_def lift_def
           split: sum.splits option.splits json.splits if_splits prod.splits)

lemma google_ok:
  assumes "outcome (google_web_search W key cx q n) = Inr (RetDumps (JArr out))"
  shows "\<exists>text response results rs norm.
           requests_get W (google_url key cx q) = Inr (Some text) \<and>
           json_loads W text = Inr response \<and>
           py_get response ''items'' (JArr []) = Inr results \<and>
           py_iter results = Inr rs \<and>
           normalize_loop rs [] = Inr norm \<and> out = slice_to norm n"
  using assms
  by (auto simp: google_web_search_def Let_def outcome_def bnd_def act_def ret_def raise_def lift_def
           split: sum.splits option.splits json.splits if_splits prod.splits)

lemma tavily_ok:
  assumes "search_api W = ''tavily''" "q \<noteq> []"
    "outcome (web_search W q n) = Inr (RetDumps (JArr out))"
  shows "\<exists>key response results rs norm.
           environ W ''TAVILY_API_KEY'' = Some key \<and>
           tavily_search W key q = Inr response \<and>
           py_get response ''results'' (JArr []) = Inr results \<and>
           py_iter results = Inr rs \<and>
           map_exn tavily_normalize rs = Inr norm \<and>
           out = take (nat (max 1 n)) norm"
  using assms
  by (auto simp: web_search_def outcome_def bnd_def act_def ret_def raise_def lift_def
           environ_get_def add_results_take
           split: sum.splits option.splits if_splits prod.splits)

lemma searx_ok:
  assumes "search_api W = ''searx''" "q \<noteq> []"
    "outcome (web_search W q n) = Inr (RetDumps (JArr out))"
  shows "\<exists>host rs norm.
           environ W ''SEARX_URL'' = Some host \<and>
           searx_results W host q n = Inr rs \<and>
           map_exn searx_normalize rs = Inr norm \<and>
           out = take (nat (max 1 n)) norm"
  using assms
  by (auto simp: web_search_def outcome_def bnd_def act_def ret_def raise_def lift_def
           environ_get_def add_results_take
           split: sum.splits option.splits if_splits prod.splits)

lemma ddg_ok:
  assumes "search_api W = ''duckduckgo''" "q \<noteq> []"
    "outcome (web_search W q n) = Inr (RetDumps (JArr out))"
  shows "\<exists>rs. ddgs_text W q = Inr rs \<and> out = take (nat (max 1 n)) rs"
  using assms
  by (auto simp: web_search_def outcome_def bnd_def act_def ret_def raise_def lift_def
           environ_get_def add_results_take
           split: sum.splits option.splits if_splits prod.splits)

lemma web_serp_ok:
  assumes "search_api W = ''googleSerp''" "q \<noteq> []"
    "outcome (web_search W q n) = Inr r"
  shows "\<exists>key. environ W ''SERP_API_KEY'' = Some key \<and> outcome (serp_web_search W key q n) = Inr r"
  using assms
  by (auto simp: web_search_def outcome_def bnd_def act_def ret_def raise_def lift_def
           environ_get_def
           split: sum.splits option.splits if_splits prod.splits)

lemma web_google_ok:
  assumes "search_api W = ''googleAPI''" "q \<noteq> []"
    "outcome (web_search W q n) = Inr r"
  shows "\<exists>key cx. environ W ''GOOGLE_API_KEY'' = Some key \<and> environ W ''GOOGLE_CX'' = Some cx \<and>
           outcome (google_web_search W key cx q n) = Inr r"
  using assms
  by (auto simp: web_search_def outcome_def bnd_def act_def ret_def raise_def lift_def
           environ_get_def
           split: sum.splits option.splits if_splits prod.splits)

lemma map_exn_tavily:
  "map_exn tavily_normalize rs = Inr norm \<Longrightarrow>
     length norm = length rs \<and>
     map (\<lambda>d. py_getitem d ''href'') norm = map (\<lambda>r. py_getitem r ''url'') rs \<and>
     (\<forall>d\<in>set norm. \<exists>h b. d = JObj [(''href'', h), (''body'', b)])"
proof (induction rs arbitrary: norm)
  case Nil
  then show ?case by simp
next
  case (Cons r rs)
  then show ?case
    by (auto simp: tavily_normalize_def split: sum.splits)
qed

lemma map_exn_searx:
  "map_exn searx_normalize rs = Inr norm \<Longrightarrow>
     length norm = length rs \<and>
     map (\<lambda>d. py_getitem d ''href'') norm = map (\<lambda>r. py_getitem r ''link'') rs \<and>
     (\<forall>d\<in>set norm. \<exists>h b. d = JObj [(''href'', h), (''body'', b)])"
proof (induction rs arbitrary: norm)
  case Nil
  then show ?case by simp
next
  case (Cons r rs)
  then show ?case
    by (auto simp: searx_normalize_def split: sum.splits)
qed

lemma normalize_loop_links:
  assumes "normalize_loop rs [] = Inr out"
  shows "map (\<lambda>d. py_getitem d ''href'') out =
           map (\<lambda>r. py_getitem r ''link'') (filter (\<lambda>r. \<not> has_youtube_link r) rs)"
    and "\<forall>d\<in>set out. \<exists>t h b. d = JObj [(''title'', t), (''href'', h), (''body'', b)] \<and>
           py_in ''youtube.com'' h = Inr False"
  using normalize_loop_spec[OF assms] by auto

lemma slice_to_map: "map f (slice_to xs n) = slice_to (map f xs) n"
  by (simp add: slice_to_def take_map)

lemma set_slice_to: "set (slice_to xs n) \<subseteq> set xs"
  by (auto simp: slice_to_def dest: in_set_takeD)

lemma length_slice_to: "0 \<le> n \<Longrightarrow> int (length (slice_to xs n)) \<le> n"
  by (simp add: slice_to_def)

lemma serp_branch:
  assumes "search_api W = ''googleSerp''" "q \<noteq> []"
    and "outcome (web_search W q n) = Inr (RetDumps (JArr out))"
  shows "\<exists>key body response results rs.
          environ W ''SERP_API_KEY'' = Some key \<and>
          requests_post W serp_url (serp_headers key) (serp_payload q n) = Inr (Some body) \<and>
          json_loads W body = Inr response \<and>
          py_getitem response ''organic'' = Inr results \<and>
          py_iter results = Inr rs \<and>
          normalize_loop rs [] = Inr out"
proof -
  from web_serp_ok[OF assms] obtain key where
    key: "environ W ''SERP_API_KEY'' = Some key"
      "outcome (serp_web_search W key q n) = Inr (RetDumps (JArr out))" by blast
  from serp_ok[OF key(2)] obtain body response results rs where
    r: "requests_post W serp_url (serp_headers key) (serp_payload q n) = Inr (Some body)"
       "json_loads W body = Inr response" "py_getitem response ''organic'' = Inr results"
       "py_iter results = Inr rs" "normalize_loop rs [] = Inr out" by blast
  show ?thesis
    by (intro exI conjI) (rule key(1) r)+
qed

lemma google_branch:
  assumes "search_api W = ''googleAPI''" "q \<noteq> []"
    and "outcome (web_search W q n) = Inr (RetDumps (JArr out))"
  shows "\<exists>key cx body response results rs norm.
          environ W ''GOOGLE_API_KEY'' = Some key \<and> environ W ''GOOGLE_CX'' = Some cx \<and>
          requests_get W (google_url key cx q) = Inr (Some body) \<and>
          json_loads W body = Inr response \<and>
          py_get response ''items'' (JArr []) = Inr results \<and>
          py_iter results = Inr rs \<and>
          normalize_loop rs [] = Inr norm \<and> out = slice_to norm n"
proof -
  from web_google_ok[OF assms] obtain key cx where
    key: "environ W ''GOOGLE_API_KEY'' = Some key" "environ W ''GOOGLE_CX'' = Some cx"
      "outcome (google_web_search W key cx q n) = Inr (RetDumps (JArr out))" by blast
  from google_ok[OF key(3)] obtain body response results rs norm where
    r: "requests_get W (google_url key cx q) = Inr (Some body)"
       "json_loads W body = Inr response" "py_get response ''items'' (JArr []) = Inr results"
       "py_iter results = Inr rs" "normalize_loop rs [] = Inr norm" "out = slice_to norm n" by blast
  show ?thesis
    by (intro exI conjI) (rule key(1,2) r)+
qed

lemma href_from_map:
  assumes m: "map (\<lambda>d. py_getitem d ''href'') out = map g rs"
    and shape: "\<forall>d\<in>set out. \<exists>h. py_getitem d ''href'' = Inr h"
  shows "\<forall>d\<in>set out. \<exists>r\<in>set rs. \<exists>h. py_getitem d ''href'' = Inr h \<and> g r = Inr h"
proof
  fix d assume d: "d \<in> set out"
  with shape obtain h where h: "py_getitem d ''href'' = Inr h" by blast
  from d have "py_getitem d ''href'' \<in> set (map (\<lambda>d. py_getitem d ''href'') out)" by simp
  with m have "py_getitem d ''href'' \<in> g ` set rs" by simp
  then obtain r where "r \<in> set rs" "g r = py_getitem d ''href''" by auto
  with h show "\<exists>r\<in>set rs. \<exists>h. py_getitem d ''href'' = Inr h \<and> g r = Inr h" by auto
qed

lemma normalize_loop_href:
  assumes "normalize_loop rs [] = Inr out"
  shows "\<forall>d\<in>set out. \<exists>r\<in>set rs. \<exists>h. py_getitem d ''href'' = Inr h \<and> py_getitem r ''link'' = Inr h"
proof -
  have shape: "\<forall>d\<in>set out. \<exists>h. py_getitem d ''href'' = Inr h"
    using normalize_loop_links(2)[OF assms] by fastforce
  from href_from_map[OF normalize_loop_links(1)[OF assms] shape]
  show ?thesis by fastforce
qed

lemma tavily_href:
  assumes "map_exn tavily_normalize rs = Inr norm"
  shows "\<forall>d\<in>set norm. \<exists>r\<in>set rs. \<exists>h. py_getitem d ''href'' = Inr h \<and> py_getitem r ''url'' = Inr h"
proof -
  note f = map_exn_tavily[OF assms]
  have shape: "\<forall>d\<in>set norm. \<exists>h. py_getitem d ''href'' = Inr h"
    using f by fastforce
  from f have m: "map (\<lambda>d. py_getitem d ''href'') norm = map (\<lambda>r. py_getitem r ''url'') rs"
    by blast
  from href_from_map[OF m shape] show ?thesis .
qed

lemma searx_href:
  assumes "map_exn searx_normalize rs = Inr norm"
  shows "\<forall>d\<in>set norm. \<exists>r\<in>set rs. \<exists>h. py_getitem d ''href'' = Inr h \<and> py_getitem r ''link'' = Inr h"
proof -
  note f = map_exn_searx[OF assms]
  have shape: "\<forall>d\<in>set norm. \<exists>h. py_getitem d ''href'' = Inr h"
    using f by fastforce
  from f have m: "map (\<lambda>d. py_getitem d ''href'') norm = map (\<lambda>r. py_getitem r ''link'') rs"
    by blast
  from href_from_map[OF m shape] show ?thesis .
qed

lemma other_provider:
  assumes "search_api W \<notin> set [''tavily'', ''googleSerp'', ''googleAPI'', ''searx'', ''duckduckgo'']"
    and "q \<noteq> []"
  shows "web_search W q n = ([Print (searching_msg q)], Inr (RetDumps (JArr [])))"
  using assms by (simp add: web_search_def ret_def)

lemma count_within_limit:
  assumes q: "q \<noteq> []" and out: "outcome (web_search W q n) = Inr (RetDumps (JArr out))"
    and n: "1 \<le> n" and api: "search_api W \<noteq> ''googleSerp''"
  shows "int (length out) \<le> n"
proof -
  consider (tavily) "search_api W = ''tavily''" | (google) "search_api W = ''googleAPI''"
    | (searx) "search_api W = ''searx''" | (ddg) "search_api W = ''duckduckgo''"
    | (other) "search_api W \<notin> set [''tavily'', ''googleSerp'', ''googleAPI'', ''searx'', ''duckduckgo'']"
    using api by auto
  then show ?thesis
  proof cases
    case tavily
    from tavily_ok[OF tavily q out] obtain norm where "out = take (nat (max 1 n)) norm" by blast
    with n show ?thesis by simp
  next
    case google
    from google_branch[OF google q out] obtain norm where "out = slice_to norm n" by blast
    with n length_slice_to[of n norm] show ?thesis by simp
  next
    case searx
    from searx_ok[OF searx q out] obtain norm where "out = take (nat (max 1 n)) norm" by blast
    with n show ?thesis by simp
  next
    case ddg
    from ddg_ok[OF ddg q out] obtain rs where "out = take (nat (max 1 n)) rs" by blast
    with n show ?thesis by simp
  next
    case other
    from other_provider[OF other q, of n] out have "out = []" by (simp add: outcome_def)
    with n show ?thesis by simp
  qed
qed

text \<open>
  C10. For every provider configuration, environment, provider behaviour and requested
  count, a search with the empty query prints its progress line, issues no call to any
  provider or network, and returns the serialization of the empty array.
\<close>

theorem web_search_empty_query:
  "web_search W [] num_results = ([Print (searching_msg [])], Inr (RetDumps (JArr [])))"
  by (simp add: web_search_def ret_def)

text \<open>
  C9. When a search with a non-empty query returns an array, the hrefs of the array are,
  in order: in the SERP branch the links of exactly those provider results that the skip
  rule keeps (the link does not contain \<open>youtube.com\<close>), and in the Google API branch the
  first \<open>n\<close> of them, so that no emitted href contains \<open>youtube.com\<close>; in the Tavily and
  Searx branches a prefix of the links of all provider results, none skipped, and in the
  DuckDuckGo branch the array is a prefix of the provider's own list.
\<close>

theorem youtube_skip_rule:
  assumes "q \<noteq> []" and "outcome (web_search W q n) = Inr (RetDumps (JArr out))"
  shows
   "(search_api W = ''googleSerp'' \<longrightarrow>
       (\<exists>key body response results rs.
          environ W ''SERP_API_KEY'' = Some key \<and>
          requests_post W serp_url (serp_headers key) (serp_payload q n) = Inr (Some body) \<and>
          json_loads W body = Inr response \<and>
          py_getitem response ''organic'' = Inr results \<and>
          py_iter results = Inr rs \<and>
          map (\<lambda>d. py_getitem d ''href'') out =
            map (\<lambda>r. py_getitem r ''link'') (filter (\<lambda>r. \<not> has_youtube_link r) rs)) \<and>
       (\<forall>d\<in>set out. \<exists>h. py_getitem d ''href'' = Inr h \<and> py_in ''youtube.com'' h = Inr False)) \<and>
    (search_api W = ''googleAPI'' \<longrightarrow>
       (\<exists>key cx body response results rs.
          environ W ''GOOGLE_API_KEY'' = Some key \<and> environ W ''GOOGLE_CX'' = Some cx \<and>
          requests_get W (google_url key cx q) = Inr (Some body) \<and>
          json_loads W body = Inr response \<and>
          py_get response ''items'' (JArr []) = Inr results \<and>
          py_iter results = Inr rs \<and>
          map (\<lambda>d. py_getitem d ''href'') out =
            slice_to (map (\<lambda>r. py_getitem r ''link'') (filter (\<lambda>r. \<not> has_youtube_link r) rs)) n) \<and>
       (\<forall>d\<in>set out. \<exists>h. py_getitem d ''href'' = Inr h \<and> py_in ''youtube.com'' h = Inr False)) \<and>
    (search_api W = ''tavily'' \<longrightarrow>
       (\<exists>key response results rs.
          environ W ''TAVILY_API_KEY'' = Some key \<and>
          tavily_search W key q = Inr response \<and>
          py_get response ''results'' (JArr []) = Inr results \<and>
          py_iter results = Inr rs \<and>
          map (\<lambda>d. py_getitem d ''href'') out =
            take (nat (max 1 n)) (map (\<lambda>r. py_getitem r ''url'') rs))) \<and>
    (search_api W = ''searx'' \<longrightarrow>
       (\<exists>host rs.
          environ W ''SEARX_URL'' = Some host \<and>
          searx_results W host q n = Inr rs \<and>
          map (\<lambda>d. py_getitem d ''href'') out =
            take (nat (max 1 n)) (map (\<lambda>r. py_getitem r ''link'') rs))) \<and>
    (search_api W = ''duckduckgo'' \<longrightarrow>
       (\<exists>rs. ddgs_text W q = Inr rs \<and> out = take (nat (max 1 n)) rs))"
proof (intro conjI impI)
  assume api: "search_api W = ''googleSerp''"
  from serp_branch[OF api assms] obtain key body response results rs where
    r: "environ W ''SERP_API_KEY'' = Some key"
       "requests_post W serp_url (serp_headers key) (serp_payload q n) = Inr (Some body)"
       "json_loads W body = Inr response" "py_getitem response ''organic'' = Inr results"
       "py_iter results = Inr rs" and nl: "normalize_loop rs [] = Inr out" by blast
  show "\<exists>key body response results rs.
          environ W ''SERP_API_KEY'' = Some key \<and>
          requests_post W serp_url (serp_headers key) (serp_payload q n) = Inr (Some body) \<and>
          json_loads W body = Inr response \<and>
          py_getitem response ''organic'' = Inr results \<and>
          py_iter results = Inr rs \<and>
          map (\<lambda>d. py_getitem d ''href'') out =
            map (\<lambda>r. py_getitem r ''link'') (filter (\<lambda>r. \<not> has_youtube_link r) rs)"
    by (intro exI conjI) (rule r normalize_loop_links(1)[OF nl])+
  show "\<forall>d\<in>set out. \<exists>h. py_getitem d ''href'' = Inr h \<and> py_in ''youtube.com'' h = Inr False"
  proof
    fix d assume "d \<in> set out"
    with normalize_loop_links(2)[OF nl] obtain t h b where
      "d = JObj [(''title'', t), (''href'', h), (''body'', b)]" "py_in ''youtube.com'' h = Inr False"
      by blast
    then show "\<exists>h. py_getitem d ''href'' = Inr h \<and> py_in ''youtube.com'' h = Inr False"
      by simp
  qed
next
  assume api: "search_api W = ''googleAPI''"
  from google_branch[OF api assms] obtain key cx body response results rs norm where
    r: "environ W ''GOOGLE_API_KEY'' = Some key" "environ W ''GOOGLE_CX'' = Some cx"
       "requests_get W (google_url key cx q) = Inr (Some body)"
       "json_loads W body = Inr response" "py_get response ''items'' (JArr []) = Inr results"
       "py_iter results = Inr rs" and nl: "normalize_loop rs [] = Inr norm"
       and out: "out = slice_to norm n" by blast
  have m: "map (\<lambda>d. py_getitem d ''href'') out =
          slice_to (map (\<lambda>r. py_getitem r ''link'') (filter (\<lambda>r. \<not> has_youtube_link r) rs)) n"
    using normalize_loop_links(1)[OF nl] out by (simp add: slice_to_map)
  show "\<exists>key cx body response results rs.
          environ W ''GOOGLE_API_KEY'' = Some key \<and> environ W ''GOOGLE_CX'' = Some cx \<and>
          requests_get W (google_url key cx q) = Inr (Some body) \<and>
          json_loads W body = Inr response \<and>
          py_get response ''items'' (JArr []) = Inr results \<and>
          py_iter results = Inr rs \<and>
          map (\<lambda>d. py_getitem d ''href'') out =
            slice_to (map (\<lambda>r. py_getitem r ''link'') (filter (\<lambda>r. \<not> has_youtube_link r) rs)) n"
    by (intro exI conjI) (rule r m)+
  show "\<forall>d\<in>set out. \<exists>h. py_getitem d ''href'' = Inr h \<and> py_in ''youtube.com'' h = Inr False"
  proof
    fix d assume "d \<in> set out"
    with out set_slice_to[of norm n] have "d \<in> set norm" by blast
    with normalize_loop_links(2)[OF nl] obtain t h b where
      "d = JObj [(''title'', t), (''href'', h), (''body'', b)]" "py_in ''youtube.com'' h = Inr False"
      by blast
    then show "\<exists>h. py_getitem d ''href'' = Inr h \<and> py_in ''youtube.com'' h = Inr False"
      by simp
  qed
next
  assume api: "search_api W = ''tavily''"
  from tavily_ok[OF api assms] obtain key response results rs norm where
    r: "environ W ''TAVILY_API_KEY'' = Some key" "tavily_search W key q = Inr response"
       "py_get response ''results'' (JArr []) = Inr results" "py_iter results = Inr rs"
       and me: "map_exn tavily_normalize rs = Inr norm" and out: "out = take (nat (max 1 n)) norm"
    by blast
  have m: "map (\<lambda>d. py_getitem d ''href'') out =
          take (nat (max 1 n)) (map (\<lambda>r. py_getitem r ''url'') rs)"
    using map_exn_tavily[OF me] out by (simp flip: take_map)
  show "\<exists>key response results rs.
          environ W ''TAVILY_API_KEY'' = Some key \<and>
          tavily_search W key q = Inr response \<and>
          py_get response ''results'' (JArr []) = Inr results \<and>
          py_iter results = Inr rs \<and>
          map (\<lambda>d. py_getitem d ''href'') out =
            take (nat (max 1 n)) (map (\<lambda>r. py_getitem r ''url'') rs)"
    by (intro exI conjI) (rule r m)+
next
  assume api: "search_api W = ''searx''"
  from searx_ok[OF api assms] obtain host rs norm where
    r: "environ W ''SEARX_URL'' = Some host" "searx_results W host q n = Inr rs"
       and me: "map_exn searx_normalize rs = Inr norm" and out: "out = take (nat (max 1 n)) norm"
    by blast
  have m: "map (\<lambda>d. py_getitem d ''href'') out =
          take (nat (max 1 n)) (map (\<lambda>r. py_getitem r ''link'') rs)"
    using map_exn_searx[OF me] out by (simp flip: take_map)
  show "\<exists>host rs.
          environ W ''SEARX_URL'' = Some host \<and>
          searx_results W host q n = Inr rs \<and>
          map (\<lambda>d. py_getitem d ''href'') out =
            take (nat (max 1 n)) (map (\<lambda>r. py_getitem r ''link'') rs)"
    by (intro exI conjI) (rule r m)+
next
  assume api: "search_api W = ''duckduckgo''"
  from ddg_ok[OF api assms]
  show "\<exists>rs. ddgs_text W q = Inr rs \<and> out = take (nat (max 1 n)) rs" .
qed

theorem youtube_skip_rule_witness:
  "''cats'' \<noteq> [] \<and>
   outcome (web_search (sample_search_world ''googleSerp'') ''cats'' 4) =
     Inr (RetDumps (JArr
       [JObj [(''title'', JStr ''a''), (''href'', JStr ''http://a.org''), (''body'', JStr ''x'')],
        JObj [(''title'', JStr ''b''), (''href'', JStr ''http://b.org''), (''body'', JStr ''z'')]])) \<and>
   (\<exists>h. py_getitem
           (JObj [(''title'', JStr ''a''), (''href'', JStr ''http://a.org''), (''body'', JStr ''x'')])
           ''href'' = Inr h \<and>
        py_in ''youtube.com'' h = Inr False) \<and>
   (\<exists>h. py_getitem
           (JObj [(''title'', JStr ''b''), (''href'', JStr ''http://b.org''), (''body'', JStr ''z'')])
           ''href'' = Inr h \<and>
        py_in ''youtube.com'' h = Inr False) \<and>
   outcome (web_search (sample_search_world ''duckduckgo'') ''cats'' 4) =
     Inr (RetDumps (JArr ddgs_results)) \<and>
   (\<exists>rs. ddgs_text (sample_search_world ''duckduckgo'') ''cats'' = Inr rs \<and>
      ddgs_results = take (nat (max 1 4)) rs)"
proof -
  let ?a = "JObj [(''title'', JStr ''a''), (''href'', JStr ''http://a.org''), (''body'', JStr ''x'')]"
  let ?b = "JObj [(''title'', JStr ''b''), (''href'', JStr ''http://b.org''), (''body'', JStr ''z'')]"
  have q: "''cats'' \<noteq> []" by simp
  have serp: "outcome (web_search (sample_search_world ''googleSerp'') ''cats'' 4) =
     Inr (RetDumps (JArr [?a, ?b]))"
    by code_simp
  have ddg: "outcome (web_search (sample_search_world ''duckduckgo'') ''cats'' 4) =
     Inr (RetDumps (JArr ddgs_results))"
    by code_simp
  have api1: "search_api (sample_search_world ''googleSerp'') = ''googleSerp''"
    by (simp add: sample_search_world_def)
  have api2: "search_api (sample_search_world ''duckduckgo'') = ''duckduckgo''"
    by (simp add: sample_search_world_def)
  note a = youtube_skip_rule[OF q serp, THEN conjunct1, THEN mp, OF api1, THEN conjunct2]
  note b = youtube_skip_rule[OF q ddg, THEN conjunct2, THEN conjunct2, THEN conjunct2,
      THEN conjunct2, THEN mp, OF api2]
  have ma: "?a \<in> set [?a, ?b]" and mb: "?b \<in> set [?a, ?b]" by simp_all
  note a1 = bspec[OF a ma]
  note a2 = bspec[OF a mb]
  from q serp a1 a2 ddg b show ?thesis by (intro conjI)
qed

text \<open>
  C3. The SERP branch serializes every result the provider sent, whatever the requested
  count: with the count 1 and a provider answer holding two pages and a video the array
  has two entries. The loop of \<open>web_search\<close> appends before it tests the count: with the
  count 0 the Tavily branch returns one entry.
\<close>

theorem result_count_exceeds_limit:
  "outcome (web_search (sample_search_world ''googleSerp'') ''cats'' 1) =
     Inr (RetDumps (JArr
       [JObj [(''title'', JStr ''a''), (''href'', JStr ''http://a.org''), (''body'', JStr ''x'')],
        JObj [(''title'', JStr ''b''), (''href'', JStr ''http://b.org''), (''body'', JStr ''z'')]])) \<and>
   outcome (web_search (sample_search_world ''tavily'') ''cats'' 0) =
     Inr (RetDumps (JArr [JObj [(''href'', JStr ''http://a.org''), (''body'', JStr ''x'')]]))"
  by code_simp

text \<open>
  C4. A SERP answer that is a JSON object without the key \<open>organic\<close> makes
  \<open>serp_web_search\<close> raise \<open>KeyError\<close> after the request, and an exception of
  \<open>requests.request\<close> leaves the function as it is: neither ends in "no results".
\<close>

theorem serp_failure_raises:
  "web_search no_organic_world ''cats'' 4 =
     ([Print ''Searching with query cats...'',
       HttpPost ''https://google.serper.dev/search''
         [(''X-API-KEY'', ''secret''), (''Content-Type'', ''application/json'')]
         (JObj [(''q'', JStr ''cats''), (''num'', JInt 4)])],
      Inl (Exn KeyError (repr_str ''organic''))) \<and>
   outcome (web_search unreachable_world ''cats'' 4) =
     Inl (Exn (LibraryError ''ConnectionError'') ''Max retries exceeded'')"
  by code_simp

text \<open>
  C7 (as stated). A provider result whose URL is the empty string is emitted with an
  empty href: the search client does not look at the value.
\<close>

theorem empty_href_emitted:
  "outcome (web_search empty_url_world ''cats'' 4) =
     Inr (RetDumps (JArr [JObj [(''href'', JStr []), (''body'', JStr ''x'')]]))"
  by code_simp

text \<open>
  C7 (amended). When a search with a non-empty query returns an array: in the four
  normalising branches every entry has an href field, and its value is the url (Tavily)
  or link (SERP, Google API, Searx) value of one of the provider's results, unchanged;
  in the DuckDuckGo branch every entry is one of the provider's results; and for a
  requested count of at least 1 the array has at most that many entries in every branch
  but the SERP one.
\<close>

theorem emitted_href_from_provider:
  assumes "q \<noteq> []" and "outcome (web_search W q n) = Inr (RetDumps (JArr out))"
  shows
   "(search_api W = ''tavily'' \<longrightarrow>
       (\<exists>key response results rs.
          environ W ''TAVILY_API_KEY'' = Some key \<and>
          tavily_search W key q = Inr response \<and>
          py_get response ''results'' (JArr []) = Inr results \<and>
          py_iter results = Inr rs \<and>
          (\<forall>d\<in>set out. \<exists>r\<in>set rs. \<exists>h.
             py_getitem d ''href'' = Inr h \<and> py_getitem r ''url'' = Inr h))) \<and>
    (search_api W = ''googleSerp'' \<longrightarrow>
       (\<exists>key body response results rs.
          environ W ''SERP_API_KEY'' = Some key \<and>
          requests_post W serp_url (serp_headers key) (serp_payload q n) = Inr (Some body) \<and>
          json_loads W body = Inr response \<and>
          py_getitem response ''organic'' = Inr results \<and>
          py_iter results = Inr rs \<and>
          (\<forall>d\<in>set out. \<exists>r\<in>set rs. \<exists>h.
             py_getitem d ''href'' = Inr h \<and> py_getitem r ''link'' = Inr h))) \<and>
    (search_api W = ''googleAPI'' \<longrightarrow>
       (\<exists>key cx body response results rs.
          environ W ''GOOGLE_API_KEY'' = Some key \<and> environ W ''GOOGLE_CX'' = Some cx \<and>
          requests_get W (google_url key cx q) = Inr (Some body) \<and>
          json_loads W body = Inr response \<and>
          py_get response ''items'' (JArr []) = Inr results \<and>
          py_iter results = Inr rs \<and>
          (\<forall>d\<in>set out. \<exists>r\<in>set rs. \<exists>h.
             py_getitem d ''href'' = Inr h \<and> py_getitem r ''link'' = Inr h))) \<and>
    (search_api W = ''searx'' \<longrightarrow>
       (\<exists>host rs.
          environ W ''SEARX_URL'' = Some host \<and>
          searx_results W host q n = Inr rs \<and>
          (\<forall>d\<in>set out. \<exists>r\<in>set rs. \<exists>h.
             py_getitem d ''href'' = Inr h \<and> py_getitem r ''link'' = Inr h))) \<and>
    (search_api W = ''duckduckgo'' \<longrightarrow>
       (\<exists>rs. ddgs_text W q = Inr rs \<and> set out \<subseteq> set rs)) \<and>
    (1 \<le> n \<longrightarrow> search_api W \<noteq> ''googleSerp'' \<longrightarrow> int (length out) \<le> n)"
proof (intro conjI impI)
  assume api: "search_api W = ''tavily''"
  from tavily_ok[OF api assms] obtain key response results rs norm where
    r: "environ W ''TAVILY_API_KEY'' = Some key" "tavily_search W key q = Inr response"
       "py_get response ''results'' (JArr []) = Inr results" "py_iter results = Inr rs"
       and me: "map_exn tavily_normalize rs = Inr norm" and out: "out = take (nat (max 1 n)) norm"
    by blast
  have h: "\<forall>d\<in>set out. \<exists>r\<in>set rs. \<exists>h.
             py_getitem d ''href'' = Inr h \<and> py_getitem r ''url'' = Inr h"
    using tavily_href[OF me] out by (auto dest: in_set_takeD)
  show "\<exists>key response results rs.
          environ W ''TAVILY_API_KEY'' = Some key \<and>
          tavily_search W key q = Inr response \<and>
          py_get response ''results'' (JArr []) = Inr results \<and>
          py_iter results = Inr rs \<and>
          (\<forall>d\<in>set out. \<exists>r\<in>set rs. \<exists>h.
             py_getitem d ''href'' = Inr h \<and> py_getitem r ''url'' = Inr h)"
    by (intro exI conjI) (rule r h)+
next
  assume api: "search_api W = ''googleSerp''"
  from serp_branch[OF api assms] obtain key body response results rs where
    r: "environ W ''SERP_API_KEY'' = Some key"
       "requests_post W serp_url (serp_headers key) (serp_payload q n) = Inr (Some body)"
       "json_loads W body = Inr response" "py_getitem response ''organic'' = Inr results"
       "py_iter results = Inr rs" and nl: "normalize_loop rs [] = Inr out" by blast
  show "\<exists>key body response results rs.
          environ W ''SERP_API_KEY'' = Some key \<and>
          requests_post W serp_url (serp_headers key) (serp_payload q n) = Inr (Some body) \<and>
          json_loads W body = Inr response \<and>
          py_getitem response ''organic'' = Inr results \<and>
          py_iter results = Inr rs \<and>
          (\<forall>d\<in>set out. \<exists>r\<in>set rs. \<exists>h.
             py_getitem d ''href'' = Inr h \<and> py_getitem r ''link'' = Inr h)"
    by (intro exI conjI) (rule r normalize_loop_href[OF nl])+
next
  assume api: "search_api W = ''googleAPI''"
  from google_branch[OF api assms] obtain key cx body response results rs norm where
    r: "environ W ''GOOGLE_API_KEY'' = Some key" "environ W ''GOOGLE_CX'' = Some cx"
       "requests_get W (google_url key cx q) = Inr (Some body)"
       "json_loads W body = Inr response" "py_get response ''items'' (JArr []) = Inr results"
       "py_iter results = Inr rs" and nl: "normalize_loop rs [] = Inr norm"
       and out: "out = slice_to norm n" by blast
  have h: "\<forall>d\<in>set out. \<exists>r\<in>set rs. \<exists>h.
             py_getitem d ''href'' = Inr h \<and> py_getitem r ''link'' = Inr h"
    using normalize_loop_href[OF nl] out set_slice_to[of norm n] by blast
  show "\<exists>key cx body response results rs.
          environ W ''GOOGLE_API_KEY'' = Some key \<and> environ W ''GOOGLE_CX'' = Some cx \<and>
          requests_get W (google_url key cx q) = Inr (Some body) \<and>
          json_loads W body = Inr response \<and>
          py_get response ''items'' (JArr []) = Inr results \<and>
          py_iter results = Inr rs \<and>
          (\<forall>d\<in>set out. \<exists>r\<in>set rs. \<exists>h.
             py_getitem d ''href'' = Inr h \<and> py_getitem r ''link'' = Inr h)"
    by (intro exI conjI) (rule r h)+
next
  assume api: "search_api W = ''searx''"
  from searx_ok[OF api assms] obtain host rs norm where
    r: "environ W ''SEARX_URL'' = Some host" "searx_results W host q n = Inr rs"
       and me: "map_exn searx_normalize rs = Inr norm" and out: "out = take (nat (max 1 n)) norm"
    by blast
  have h: "\<forall>d\<in>set out. \<exists>r\<in>set rs. \<exists>h.
             py_getitem d ''href'' = Inr h \<and> py_getitem r ''link'' = Inr h"
    using searx_href[OF me] out by (auto dest: in_set_takeD)
  show "\<exists>host rs.
          environ W ''SEARX_URL'' = Some host \<and>
          searx_results W host q n = Inr rs \<and>
          (\<forall>d\<in>set out. \<exists>r\<in>set rs. \<exists>h.
             py_getitem d ''href'' = Inr h \<and> py_getitem r ''link'' = Inr h)"
    by (intro exI conjI) (rule r h)+
next
  assume api: "search_api W = ''duckduckgo''"
  from ddg_ok[OF api assms] obtain rs where
    r: "ddgs_text W q = Inr rs" and out: "out = take (nat (max 1 n)) rs" by blast
  from out have "set out \<subseteq> set rs" by (auto dest: in_set_takeD)
  with r show "\<exists>rs. ddgs_text W q = Inr rs \<and> set out \<subseteq> set rs" by blast
next
  assume "1 \<le> n" "search_api W \<noteq> ''googleSerp''"
  with count_within_limit[OF assms] show "int (length out) \<le> n" by blast
qed

theorem emitted_href_from_provider_witness:
  "''cats'' \<noteq> [] \<and>
   outcome (web_search empty_url_world ''cats'' 4) =
     Inr (RetDumps (JArr [JObj [(''href'', JStr []), (''body'', JStr ''x'')]])) \<and>
   1 \<le> (4::int) \<and> search_api empty_url_world \<noteq> ''googleSerp'' \<and>
   int (length [JObj [(''href'', JStr []), (''body'', JStr ''x'')]]) \<le> 4 \<and>
   (\<exists>key response results rs.
      environ empty_url_world ''TAVILY_API_KEY'' = Some key \<and>
      tavily_search empty_url_world key ''cats'' = Inr response \<and>
      py_get response ''results'' (JArr []) = Inr results \<and>
      py_iter results = Inr rs \<and>
      (\<forall>d\<in>set [JObj [(''href'', JStr []), (''body'', JStr ''x'')]]. \<exists>r\<in>set rs. \<exists>h.
         py_getitem d ''href'' = Inr h \<and> py_getitem r ''url'' = Inr h))"
proof -
  have q: "''cats'' \<noteq> []" by simp
  have run: "outcome (web_search empty_url_world ''cats'' 4) =
     Inr (RetDumps (JArr [JObj [(''href'', JStr []), (''body'', JStr ''x'')]]))"
    by code_simp
  have api: "search_api empty_url_world = ''tavily''"
    by (simp add: empty_url_world_def sample_search_world_def)
  note a = emitted_href_from_provider[OF q run]
  have n: "1 \<le> (4::int)" by simp
  have napi: "search_api empty_url_world \<noteq> ''googleSerp''"
    by (simp add: api)
  from a n napi have "int (length [JObj [(''href'', JStr []), (''body'', JStr ''x'')]]) \<le> 4"
    by (elim conjE) (drule (1) mp, drule (1) mp, assumption)
  moreover from a api have "\<exists>key response results rs.
      environ empty_url_world ''TAVILY_API_KEY'' = Some key \<and>
      tavily_search empty_url_world key ''cats'' = Inr response \<and>
      py_get response ''results'' (JArr []) = Inr results \<and>
      py_iter results = Inr rs \<and>
      (\<forall>d\<in>set [JObj [(''href'', JStr []), (''body'', JStr ''x'')]]. \<exists>r\<in>set rs. \<exists>h.
         py_getitem d ''href'' = Inr h \<and> py_getitem r ''url'' = Inr h)"
    by (elim conjE) (drule (1) mp, assumption)
  ultimately show ?thesis using q run n napi by (intro conjI)
qed

section \<open>Properties of the page fetcher\<close>

lemma split_str_nonempty: "split_str [c] s \<noteq> []"
  by (induction s) (auto split: list.splits)

lemma split_str_length: "length (split_str [c] s) = Suc (length (filter (\<lambda>x. x = c) s))"
proof (induction s)
  case Nil
  then show ?case by simp
next
  case (Cons x xs)
  then show ?case
    using split_str_nonempty[of c xs] by (auto split: list.splits)
qed

lemma final_segment_Cons:
  "final_segment (x # xs) =
     (if CHR ''/'' \<in> set xs then final_segment xs
      else if x = CHR ''/'' then xs else x # xs)"
proof (cases "CHR ''/'' \<in> set xs")
  case True
  then have "\<not> (\<forall>y\<in>set (rev xs). y \<noteq> CHR ''/'')" by simp
  then have "takeWhile (\<lambda>c. c \<noteq> CHR ''/'') (rev xs @ [x]) =
               takeWhile (\<lambda>c. c \<noteq> CHR ''/'') (rev xs)"
    by (simp only: takeWhile_append if_False)
  with True show ?thesis by (simp add: final_segment_def)
next
  case False
  then have all: "\<forall>y\<in>set (rev xs). y \<noteq> CHR ''/''" by auto
  have "takeWhile (\<lambda>c. c \<noteq> CHR ''/'') (rev xs @ [x]) =
          (if \<forall>y\<in>set (rev xs). y \<noteq> CHR ''/''
           then rev xs @ takeWhile (\<lambda>c. c \<noteq> CHR ''/'') [x]
           else takeWhile (\<lambda>c. c \<noteq> CHR ''/'') (rev xs))"
    by (rule takeWhile_append)
  also have "\<dots> = rev xs @ takeWhile (\<lambda>c. c \<noteq> CHR ''/'') [x]"
    using all by (rule if_P)
  finally have "takeWhile (\<lambda>c. c \<noteq> CHR ''/'') (rev xs @ [x]) =
      rev xs @ takeWhile (\<lambda>c. c \<noteq> CHR ''/'') [x]" .
  with False show ?thesis by (simp add: final_segment_def)
qed

lemma final_segment_no_slash: "CHR ''/'' \<notin> set s \<Longrightarrow> final_segment s = s"
proof -
  assume "CHR ''/'' \<notin> set s"
  then have "takeWhile (\<lambda>c. c \<noteq> CHR ''/'') (rev s) = rev s"
    by (auto simp: takeWhile_eq_all_conv)
  then show ?thesis unfolding final_segment_def by (simp only: rev_rev_ident)
qed

lemma last_split_str: "last (split_str ''/'' s) = final_segment s"
proof (induction s)
  case Nil
  then show ?case by (simp add: final_segment_def)
next
  case (Cons x xs)
  have ne: "split_str ''/'' xs \<noteq> []" by (rule split_str_nonempty)
  have len: "length (split_str ''/'' xs) = Suc (length (filter (\<lambda>c. c = CHR ''/'') xs))"
    by (rule split_str_length)
  show ?case
  proof (cases "x = CHR ''/''")
    case True
    then have "last (split_str ''/'' (x # xs)) = final_segment xs"
      using ne Cons.IH by simp
    moreover have "final_segment (x # xs) = final_segment xs"
      using True by (simp add: final_segment_Cons final_segment_no_slash)
    ultimately show ?thesis by simp
  next
    case False
    obtain w ws where w: "split_str ''/'' xs = w # ws" using ne by (cases "split_str ''/'' xs") auto
    show ?thesis
    proof (cases "CHR ''/'' \<in> set xs")
      case True
      then have "filter (\<lambda>c. c = CHR ''/'') xs \<noteq> []" by (auto simp: filter_empty_conv)
      with len w have "ws \<noteq> []" by (cases "filter (\<lambda>c. c = CHR ''/'') xs") auto
      with w False have "last (split_str ''/'' (x # xs)) = last (split_str ''/'' xs)" by simp
      with Cons.IH True show ?thesis by (simp add: final_segment_Cons)
    next
      case no: False
      then have "filter (\<lambda>c. c = CHR ''/'') xs = []" by (auto simp: filter_empty_conv)
      with len w have ws: "ws = []" by simp
      from Cons.IH w ws no have "w = xs" by (simp add: final_segment_no_slash)
      with w ws False no show ?thesis by (simp add: final_segment_Cons)
    qed
  qed
qed

lemma final_segment_spec:
  "CHR ''/'' \<notin> set (final_segment s) \<and>
   (\<exists>pre. s = pre @ final_segment s \<and> (pre = [] \<or> last pre = CHR ''/''))"
proof -
  let ?P = "\<lambda>c. c \<noteq> CHR ''/''"
  have 1: "CHR ''/'' \<notin> set (final_segment s)"
    unfolding final_segment_def using set_takeWhileD[of "CHR ''/''" ?P "rev s"] by auto
  have "rev (dropWhile ?P (rev s)) @ rev (takeWhile ?P (rev s)) =
          rev (takeWhile ?P (rev s) @ dropWhile ?P (rev s))"
    by (simp only: rev_append)
  also have "\<dots> = s" by simp
  finally have 2: "s = rev (dropWhile ?P (rev s)) @ final_segment s"
    by (simp add: final_segment_def)
  have 3: "rev (dropWhile ?P (rev s)) = [] \<or> last (rev (dropWhile ?P (rev s))) = CHR ''/''"
  proof (cases "dropWhile ?P (rev s)")
    case Nil
    then show ?thesis by simp
  next
    case (Cons a as)
    with hd_dropWhile[of ?P "rev s"] have "a = CHR ''/''" by simp
    with Cons show ?thesis by simp
  qed
  from 2 3 have "\<exists>pre. s = pre @ final_segment s \<and> (pre = [] \<or> last pre = CHR ''/'')"
    by (rule_tac x = "rev (dropWhile ?P (rev s))" in exI) simp
  with 1 show ?thesis by simp
qed

lemma endswith_iff: "endswith s suf \<longleftrightarrow> (\<exists>pre. s = pre @ suf)"
proof
  assume "endswith s suf"
  then have "drop (length s - length suf) s = suf"
    by (simp add: endswith_def)
  then have "s = take (length s - length suf) s @ suf"
    by (metis append_take_drop_id)
  then show "\<exists>pre. s = pre @ suf" ..
next
  assume "\<exists>pre. s = pre @ suf"
  then show "endswith s suf" by (auto simp: endswith_def)
qed

lemma str_contains_iff: "str_contains pat s \<longleftrightarrow> (\<exists>pre suf. s = pre @ pat @ suf)"
proof (induction s)
  case Nil
  then show ?case by auto
next
  case (Cons c cs)
  have "take (length pat) (c # cs) = pat \<longleftrightarrow> (\<exists>suf. c # cs = pat @ suf)"
  proof
    assume "take (length pat) (c # cs) = pat"
    then have "c # cs = pat @ drop (length pat) (c # cs)"
      by (metis append_take_drop_id)
    then show "\<exists>suf. c # cs = pat @ suf" ..
  next
    assume "\<exists>suf. c # cs = pat @ suf"
    then show "take (length pat) (c # cs) = pat" by auto
  qed
  moreover have "(\<exists>pre suf. c # cs = pre @ pat @ suf) \<longleftrightarrow>
      (\<exists>suf. c # cs = pat @ suf) \<or> (\<exists>pre suf. cs = pre @ pat @ suf)"
  proof
    assume "\<exists>pre suf. c # cs = pre @ pat @ suf"
    then obtain pre suf where e: "c # cs = pre @ pat @ suf" by blast
    show "(\<exists>suf. c # cs = pat @ suf) \<or> (\<exists>pre suf. cs = pre @ pat @ suf)"
    proof (cases pre)
      case Nil
      with e show ?thesis by auto
    next
      case (Cons p ps)
      with e have "cs = ps @ pat @ suf" by simp
      then show ?thesis by blast
    qed
  next
    assume "(\<exists>suf. c # cs = pat @ suf) \<or> (\<exists>pre suf. cs = pre @ pat @ suf)"
    then show "\<exists>pre suf. c # cs = pre @ pat @ suf"
    proof
      assume "\<exists>suf. c # cs = pat @ suf"
      then obtain suf where "c # cs = [] @ pat @ suf" by auto
      then show ?thesis by blast
    next
      assume "\<exists>pre suf. cs = pre @ pat @ suf"
      then obtain pre suf where "c # cs = (c # pre) @ pat @ suf" by auto
      then show ?thesis by blast
    qed
  qed
  ultimately show ?case using Cons.IH by simp
qed

lemma events_bnd:
  "events (bnd m f) = events m @ (case outcome m of Inl e \<Rightarrow> [] | Inr a \<Rightarrow> events (f a))"
  by (simp add: events_def outcome_def bnd_def split: prod.splits sum.splits)

lemma events_simps:
  "events (act ev r) = [ev]" "events (ret a) = []" "events (raise e) = []" "events (lift r) = []"
  "events (es, x) = es"
  by (simp_all add: events_def act_def ret_def raise_def lift_def)

lemma outcome_simps:
  "outcome (act ev r) = r" "outcome (ret a) = Inr a" "outcome (raise e) = Inl e"
  "outcome (lift r) = r" "outcome (es, x) = x"
  by (simp_all add: outcome_def act_def ret_def raise_def lift_def)

lemma fst_events: "fst m = events m"
  by (simp add: events_def)

lemma open_session_events:
  "ExecuteScript d js \<notin> set (events (open_session W url)) \<and>
   PyMuPDFLoad u \<notin> set (events (open_session W url)) \<and>
   ArxivRetrieve i \<notin> set (events (open_session W url))"
  by (simp add: open_session_def Let_def events_bnd events_simps(1-5) outcome_simps fst_events
        del: bnd_act_Inr bnd_act_Inl split: sum.splits)

lemma scrape_after_open:
  assumes "open_session W url = (es, Inr driver)"
  shows "scrape_text_with_selenium W url =
           (es @ events (extract_content W driver url),
            case outcome (extract_content W driver url) of
              Inl e \<Rightarrow> Inl e
            | Inr t \<Rightarrow> Inr (driver, clean_text t))"
  using assms
  by (simp add: scrape_text_with_selenium_def bnd_def ret_def events_def outcome_def
           split: prod.splits sum.splits)

lemma extract_pdf:
  assumes "endswith url ''.pdf''"
  shows "extract_content W driver url = ([PyMuPDFLoad url], pymupdf_load W url)"
  using assms by (simp add: extract_content_def scrape_pdf_with_pymupdf_def act_def)

lemma extract_arxiv:
  assumes "\<not> endswith url ''.pdf''" "str_contains ''arxiv'' url"
  shows "extract_content W driver url =
           ([ArxivRetrieve (final_segment url)],
            case arxiv_documents W (final_segment url) of
              Inl e \<Rightarrow> Inl e
            | Inr [] \<Rightarrow> Inl (Exn IndexError ''list index out of range'')
            | Inr (doc # docs) \<Rightarrow> Inr doc)"
  using assms
  by (simp add: extract_content_def scrape_pdf_with_arxiv_def last_split_str bnd_def act_def
        ret_def raise_def del: split_str.simps split: sum.splits list.splits)

lemma extract_dom:
  assumes "\<not> endswith url ''.pdf''" "\<not> str_contains ''arxiv'' url"
  shows "extract_content W driver url =
           ([ExecuteScript driver ''return document.body.outerHTML;''],
            case execute_script W driver ''return document.body.outerHTML;'' of
              Inl e \<Rightarrow> Inl e
            | Inr src \<Rightarrow>
               (case find_all_text W src [''h1'', ''h2'', ''h3'', ''h4'', ''h5'', ''p''] of
                  Inl e \<Rightarrow> Inl e
                | Inr elements \<Rightarrow>
                    Inr (concat (map (\<lambda>element. element @ [CHR 0x0A, CHR 0x0A]) elements))))"
  using assms
  by (simp add: extract_content_def get_text_def bnd_def act_def lift_def
        ret_def raise_def split: sum.splits list.splits)

text \<open>
  C8. Once the browser session is open and the page body is present: for a URL that ends
  with \<open>.pdf\<close> the only further call is the PDF loader on the URL, and no script is
  ever executed in the page; otherwise, for a URL that contains \<open>arxiv\<close>, the only further
  call is the arXiv retriever on \<open>url.split("/")[-1]\<close>, which is the part of the URL after
  its last \<open>/\<close>; otherwise the only further call reads \<open>document.body.outerHTML\<close>
  from the live page and the text is made from its heading and paragraph elements.
\<close>

theorem url_classification:
  assumes "open_session W url = (es, Inr driver)"
  shows
   "(endswith url ''.pdf'' \<longrightarrow>
       scrape_text_with_selenium W url =
         (es @ [PyMuPDFLoad url],
          case pymupdf_load W url of
            Inl e \<Rightarrow> Inl e
          | Inr t \<Rightarrow> Inr (driver, clean_text t)) \<and>
       (\<forall>d js. ExecuteScript d js \<notin> set (events (scrape_text_with_selenium W url)))) \<and>
    (\<not> endswith url ''.pdf'' \<and> str_contains ''arxiv'' url \<longrightarrow>
       last (split_str ''/'' url) = final_segment url \<and>
       scrape_text_with_selenium W url =
         (es @ [ArxivRetrieve (final_segment url)],
          case arxiv_documents W (final_segment url) of
            Inl e \<Rightarrow> Inl e
          | Inr [] \<Rightarrow> Inl (Exn IndexError ''list index out of range'')
          | Inr (doc # docs) \<Rightarrow> Inr (driver, clean_text doc))) \<and>
    (\<not> endswith url ''.pdf'' \<and> \<not> str_contains ''arxiv'' url \<longrightarrow>
       scrape_text_with_selenium W url =
         (es @ [ExecuteScript driver ''return document.body.outerHTML;''],
          case execute_script W driver ''return document.body.outerHTML;'' of
            Inl e \<Rightarrow> Inl e
          | Inr src \<Rightarrow>
             (case find_all_text W src [''h1'', ''h2'', ''h3'', ''h4'', ''h5'', ''p''] of
                Inl e \<Rightarrow> Inl e
              | Inr elements \<Rightarrow>
                  Inr (driver, clean_text
                    (concat (map (\<lambda>element. element @ [CHR 0x0A, CHR 0x0A]) elements))))))"
proof (intro conjI impI allI)
  assume pdf: "endswith url ''.pdf''"
  show run: "scrape_text_with_selenium W url =
         (es @ [PyMuPDFLoad url],
          case pymupdf_load W url of
            Inl e \<Rightarrow> Inl e
          | Inr t \<Rightarrow> Inr (driver, clean_text t))"
    by (simp add: scrape_after_open[OF assms] extract_pdf[OF pdf] events_simps outcome_simps)
  fix d js
  from open_session_events[of d js W url] assms
  have "ExecuteScript d js \<notin> set es" by (simp add: events_simps)
  then show "ExecuteScript d js \<notin> set (events (scrape_text_with_selenium W url))"
    by (simp add: run events_simps)
next
  assume "\<not> endswith url ''.pdf'' \<and> str_contains ''arxiv'' url"
  then have a: "\<not> endswith url ''.pdf''" "str_contains ''arxiv'' url" by simp_all
  show "last (split_str ''/'' url) = final_segment url" by (rule last_split_str)
  show "scrape_text_with_selenium W url =
         (es @ [ArxivRetrieve (final_segment url)],
          case arxiv_documents W (final_segment url) of
            Inl e \<Rightarrow> Inl e
          | Inr [] \<Rightarrow> Inl (Exn IndexError ''list index out of range'')
          | Inr (doc # docs) \<Rightarrow> Inr (driver, clean_text doc))"
    by (simp add: scrape_after_open[OF assms] extract_arxiv[OF a] events_simps outcome_simps
          split: sum.splits list.splits)
next
  assume "\<not> endswith url ''.pdf'' \<and> \<not> str_contains ''arxiv'' url"
  then have a: "\<not> endswith url ''.pdf''" "\<not> str_contains ''arxiv'' url" by simp_all
  show "scrape_text_with_selenium W url =
         (es @ [ExecuteScript driver ''return document.body.outerHTML;''],
          case execute_script W driver ''return document.body.outerHTML;'' of
            Inl e \<Rightarrow> Inl e
          | Inr src \<Rightarrow>
             (case find_all_text W src [''h1'', ''h2'', ''h3'', ''h4'', ''h5'', ''p''] of
                Inl e \<Rightarrow> Inl e
              | Inr elements \<Rightarrow>
                  Inr (driver, clean_text
                    (concat (map (\<lambda>element. element @ [CHR 0x0A, CHR 0x0A]) elements)))))"
    by (simp add: scrape_after_open[OF assms] extract_dom[OF a] events_simps outcome_simps
          split: sum.splits)
qed


theorem url_classification_witness:
  "open_session sample_fetch_world ''http://arxiv.org/abs/1706.03762'' =
     ([DriverStart ''Chrome'' None
         [''user-agent=Mozilla/5.0'', ''--headless'', ''--enable-javascript'',
          ''--disable-dev-shm-usage'', ''--remote-debugging-port=9222'', ''--no-sandbox'']
         [(''prefs'', JObj [(''download_restrictions'', JInt 3)])],
       Print ''scraping url http://arxiv.org/abs/1706.03762...'',
       DriverGet 7 ''http://arxiv.org/abs/1706.03762'', WaitBody 7], Inr 7) \<and>
   \<not> endswith ''http://arxiv.org/abs/1706.03762'' ''.pdf'' \<and>
   str_contains ''arxiv'' ''http://arxiv.org/abs/1706.03762'' \<and>
   last (split_str ''/'' ''http://arxiv.org/abs/1706.03762'') = ''1706.03762'' \<and>
   scrape_text_with_selenium sample_fetch_world ''http://arxiv.org/abs/1706.03762'' =
     ([DriverStart ''Chrome'' None
         [''user-agent=Mozilla/5.0'', ''--headless'', ''--enable-javascript'',
          ''--disable-dev-shm-usage'', ''--remote-debugging-port=9222'', ''--no-sandbox'']
         [(''prefs'', JObj [(''download_restrictions'', JInt 3)])],
       Print ''scraping url http://arxiv.org/abs/1706.03762...'',
       DriverGet 7 ''http://arxiv.org/abs/1706.03762'', WaitBody 7,
       ArxivRetrieve ''1706.03762''], Inr (7, ''paper''))"
proof -
  let ?u = "''http://arxiv.org/abs/1706.03762''"
  let ?es = "[DriverStart ''Chrome'' None
         [''user-agent=Mozilla/5.0'', ''--headless'', ''--enable-javascript'',
          ''--disable-dev-shm-usage'', ''--remote-debugging-port=9222'', ''--no-sandbox'']
         [(''prefs'', JObj [(''download_restrictions'', JInt 3)])],
       Print ''scraping url http://arxiv.org/abs/1706.03762...'',
       DriverGet 7 ''http://arxiv.org/abs/1706.03762'', WaitBody 7]"
  have h: "open_session sample_fetch_world ?u = (?es, Inr 7)" by code_simp
  have c1: "\<not> endswith ?u ''.pdf''" by code_simp
  have c2: "str_contains ''arxiv'' ?u" by code_simp
  have fs: "final_segment ?u = ''1706.03762''" by code_simp
  have docs: "arxiv_documents sample_fetch_world ''1706.03762'' = Inr [''paper'']"
    by (simp add: sample_fetch_world_def)
  have ct: "clean_text ''paper'' = ''paper''" by code_simp
  from c1 c2 have c: "\<not> endswith ?u ''.pdf'' \<and> str_contains ''arxiv'' ?u" ..
  note a = url_classification[OF h, THEN conjunct2, THEN conjunct1, THEN mp, OF c]
  from a have "last (split_str ''/'' ?u) = ''1706.03762''"
    unfolding fs by (rule conjunct1)
  moreover from a have "scrape_text_with_selenium sample_fetch_world ?u =
      (?es @ [ArxivRetrieve ''1706.03762''], Inr (7, ''paper''))"
    unfolding fs docs by (simp add: ct)
  ultimately show ?thesis using h c1 c2 by simp
qed

lemma events_try_except:
  "events (try_except m h) =
     events m @ (case outcome m of
                   Inl e \<Rightarrow> if catchable e then events (h e) else []
                 | Inr a \<Rightarrow> [])"
  by (simp add: try_except_def events_def outcome_def split: prod.splits sum.splits)

lemma outcome_bnd:
  "outcome (bnd m f) = (case outcome m of Inl e \<Rightarrow> Inl e | Inr a \<Rightarrow> outcome (f a))"
  by (simp add: outcome_def bnd_def split: prod.splits sum.splits)

lemma outcome_try_except:
  "outcome (try_except m h) =
     (case outcome m of
        Inl e \<Rightarrow> if catchable e then outcome (h e) else Inl e
      | Inr a \<Rightarrow> Inr a)"
  by (simp add: try_except_def outcome_def split: prod.splits sum.splits)

lemma open_session_no_quit: "DriverQuit d \<notin> set (events (open_session W url))"
  by (simp add: open_session_def Let_def events_bnd events_simps outcome_simps fst_events
        del: bnd_act_Inr bnd_act_Inl split: sum.splits)

lemma extract_content_no_quit: "DriverQuit d \<notin> set (events (extract_content W driver url))"
  by (simp add: extract_content_def Let_def scrape_pdf_with_pymupdf_def scrape_pdf_with_arxiv_def
        get_text_def events_bnd events_simps outcome_simps fst_events
        del: bnd_act_Inr bnd_act_Inl split_str.simps split: sum.splits list.splits)

lemma scrape_no_quit: "DriverQuit d \<notin> set (events (scrape_text_with_selenium W url))"
  using open_session_no_quit[of d W url] extract_content_no_quit[of d W _ url]
  by (simp add: scrape_text_with_selenium_def events_bnd events_simps split: sum.splits)

lemma add_header_no_quit: "DriverQuit d \<notin> set (events (add_header W driver))"
  by (simp add: add_header_def Let_def events_bnd events_simps outcome_simps
        del: bnd_act_Inr bnd_act_Inl split: sum.splits)

lemma async_browse_never_quits: "DriverQuit d \<notin> set (events (async_browse W url question))"
  using scrape_no_quit[of d W url] add_header_no_quit[of d W]
  by (simp add: async_browse_def events_bnd events_try_except events_simps outcome_simps
        del: bnd_act_Inr bnd_act_Inl split: sum.splits prod.splits)

lemma async_browse_catches:
  assumes "ws_send_json W (logs_message (browsing_msg url question)) = Inr ()"
    and "outcome (async_browse W url question) = Inl e"
  shows "\<not> catchable e"
  using assms
  by (simp add: async_browse_def outcome_bnd outcome_try_except outcome_simps
        del: bnd_act_Inr bnd_act_Inl split: sum.splits if_splits)

lemma browse_website_empty_url: "browse_website W [] question = ([], Inr (no_url_message, None))"
  by (simp add: browse_website_def ret_def)

lemma open_session_unsupported:
  assumes "selenium_web_browser W \<notin> set [''chrome'', ''safari'', ''firefox'']"
  shows "open_session W url = ([], Inl (key_error (selenium_web_browser W)))"
  using assms by (simp add: open_session_def Let_def raise_def)

lemma bnd_pair_Inl: "bnd (es, Inl e) f = (es, Inl e)"
  by (simp add: bnd_def)

text \<open>
  C6 (as stated). With a search provider name that is none of the five the code knows,
  a search returns the serialization of the empty array; nothing is raised.
\<close>

theorem unsupported_provider_returns_empty:
  "web_search (sample_search_world ''bing'') ''cats'' 4 =
     ([Print ''Searching with query cats...''], Inr (RetDumps (JArr [])))"
  by code_simp

text \<open>
  C6 (amended). With a browser name that is none of chrome, safari and firefox,
  \<open>scrape_text_with_selenium\<close> raises \<open>KeyError\<close> for that name before any call to the
  outside; \<open>browse_website\<close> lets it through for a non-empty URL, and \<open>async_browse\<close>,
  once its first progress message is sent, returns the error text for it. With a search
  provider name that is none of the five, a search with a non-empty query calls no
  provider and returns the serialization of the empty array.
\<close>

theorem unsupported_configuration:
  "(selenium_web_browser W \<notin> set [''chrome'', ''safari'', ''firefox''] \<longrightarrow>
      scrape_text_with_selenium W url = ([], Inl (key_error (selenium_web_browser W))) \<and>
      (url \<noteq> [] \<longrightarrow>
         browse_website W url question = ([], Inl (key_error (selenium_web_browser W)))) \<and>
      (ws_send_json W (logs_message (browsing_msg url question)) = Inr () \<longrightarrow>
         outcome (async_browse W url question) =
           Inr (''Error processing the url '' @ url @ '': '' @ repr_str (selenium_web_browser W)))) \<and>
   (search_api S \<notin> set [''tavily'', ''googleSerp'', ''googleAPI'', ''searx'', ''duckduckgo''] \<and>
    q \<noteq> [] \<longrightarrow>
      web_search S q n = ([Print (searching_msg q)], Inr (RetDumps (JArr []))))"
proof (intro conjI impI)
  assume b: "selenium_web_browser W \<notin> set [''chrome'', ''safari'', ''firefox'']"
  show s: "scrape_text_with_selenium W url = ([], Inl (key_error (selenium_web_browser W)))"
    by (simp add: scrape_text_with_selenium_def open_session_unsupported[OF b] bnd_def)
  show "browse_website W url question = ([], Inl (key_error (selenium_web_browser W)))"
    if "url \<noteq> []"
    using that by (simp add: browse_website_def s bnd_def)
  show "outcome (async_browse W url question) =
           Inr (''Error processing the url '' @ url @ '': '' @ repr_str (selenium_web_browser W))"
    if "ws_send_json W (logs_message (browsing_msg url question)) = Inr ()"
    using that
    by (simp add: async_browse_def s bnd_pair_Inl outcome_bnd outcome_try_except outcome_simps
          key_error_def del: bnd_act_Inr bnd_act_Inl)
next
  assume "search_api S \<notin> set [''tavily'', ''googleSerp'', ''googleAPI'', ''searx'', ''duckduckgo''] \<and>
    q \<noteq> []"
  then show "web_search S q n = ([Print (searching_msg q)], Inr (RetDumps (JArr [])))"
    using other_provider[of S q n] by blast
qed

theorem unsupported_configuration_witness:
  "selenium_web_browser (sample_fetch_world\<lparr>selenium_web_browser := ''edge''\<rparr>)
     \<notin> set [''chrome'', ''safari'', ''firefox''] \<and>
   ''http://a.org/x'' \<noteq> [] \<and>
   browse_website (sample_fetch_world\<lparr>selenium_web_browser := ''edge''\<rparr>) ''http://a.org/x'' ''why'' =
     ([], Inl (Exn KeyError (repr_str ''edge''))) \<and>
   outcome (async_browse (sample_fetch_world\<lparr>selenium_web_browser := ''edge''\<rparr>)
              ''http://a.org/x'' ''why'') =
     Inr (''Error processing the url http://a.org/x: '' @ repr_str ''edge'') \<and>
   search_api (sample_search_world ''bing'')
     \<notin> set [''tavily'', ''googleSerp'', ''googleAPI'', ''searx'', ''duckduckgo''] \<and>
   ''cats'' \<noteq> [] \<and>
   web_search (sample_search_world ''bing'') ''cats'' 2 =
     ([Print (searching_msg ''cats'')], Inr (RetDumps (JArr [])))"
proof -
  let ?W = "sample_fetch_world\<lparr>selenium_web_browser := ''edge''\<rparr>"
  let ?S = "sample_search_world ''bing''"
  have b: "selenium_web_browser ?W \<notin> set [''chrome'', ''safari'', ''firefox'']" by simp
  have u: "''http://a.org/x'' \<noteq> []" by simp
  have ws: "ws_send_json ?W (logs_message (browsing_msg ''http://a.org/x'' ''why'')) = Inr ()"
    by (simp add: sample_fetch_world_def)
  have p: "search_api ?S \<notin> set [''tavily'', ''googleSerp'', ''googleAPI'', ''searx'', ''duckduckgo''] \<and>
    ''cats'' \<noteq> []"
    by (simp add: sample_search_world_def)
  note t = unsupported_configuration[of ?W "''http://a.org/x''" "''why''" ?S "''cats''" 2]
  note f = t[THEN conjunct1, THEN mp, OF b]
  note f1 = f[THEN conjunct2, THEN conjunct1, THEN mp, OF u]
  note f2 = f[THEN conjunct2, THEN conjunct2, THEN mp, OF ws]
  note s1 = t[THEN conjunct2, THEN mp, OF p]
  have br: "selenium_web_browser ?W = ''edge''" by simp
  from f1 have g1: "browse_website ?W ''http://a.org/x'' ''why'' =
     ([], Inl (Exn KeyError (repr_str ''edge'')))"
    by (simp only: br key_error_def)
  from f2 have g2: "outcome (async_browse ?W ''http://a.org/x'' ''why'') =
     Inr (''Error processing the url http://a.org/x: '' @ repr_str ''edge'')"
    by (simp only: br) simp
  from b u g1 g2 p s1 show ?thesis by (intro conjI) simp_all
qed

lemma sample_fetch_world_fields:
  "selenium_web_browser sample_fetch_world = ''chrome''"
  "user_agent sample_fetch_world = ''Mozilla/5.0''"
  "platform sample_fetch_world = ''linux''"
  "file_dir sample_fetch_world = ''/app''"
  "driver_new sample_fetch_world cls path args prefs = Inr 7"
  "driver_get sample_fetch_world driver url =
     (if url = [] then Inl (Exn (LibraryError ''InvalidArgumentException'') ''invalid argument'')
      else Inr ())"
  "wait_body sample_fetch_world driver = Inr ()"
  "execute_script sample_fetch_world driver js = Inr ''<body><p>Hello</p></body>''"
  "find_all_text sample_fetch_world src tags = Inr [''Hello'']"
  "read_file sample_fetch_world file = Inr ''overlay();''"
  "summarize_text sample_fetch_world url t question driver = Inr ''summary''"
  "ws_send_json sample_fetch_world msg = Inr ()"
  by (simp_all add: sample_fetch_world_def)

lemma failing_summarizer_world_fields:
  "selenium_web_browser failing_summarizer_world = ''chrome''"
  "user_agent failing_summarizer_world = ''Mozilla/5.0''"
  "platform failing_summarizer_world = ''linux''"
  "file_dir failing_summarizer_world = ''/app''"
  "driver_new failing_summarizer_world cls path args prefs = Inr 7"
  "driver_get failing_summarizer_world driver url =
     (if url = [] then Inl (Exn (LibraryError ''InvalidArgumentException'') ''invalid argument'')
      else Inr ())"
  "wait_body failing_summarizer_world driver = Inr ()"
  "execute_script failing_summarizer_world driver js = Inr ''<body><p>Hello</p></body>''"
  "find_all_text failing_summarizer_world src tags = Inr [''Hello'']"
  "read_file failing_summarizer_world file = Inr ''overlay();''"
  "summarize_text failing_summarizer_world url t question driver =
     Inl (Exn (LibraryError ''RateLimitError'') ''rate limit reached'')"
  by (simp_all add: failing_summarizer_world_def sample_fetch_world_def)

lemma timeout_world_fields:
  "selenium_web_browser timeout_world = ''chrome''"
  "user_agent timeout_world = ''Mozilla/5.0''"
  "platform timeout_world = ''linux''"
  "driver_new timeout_world cls path args prefs = Inr 7"
  "driver_get timeout_world driver url =
     (if url = [] then Inl (Exn (LibraryError ''InvalidArgumentException'') ''invalid argument'')
      else Inr ())"
  "wait_body timeout_world driver = Inl (Exn (LibraryError ''TimeoutException'') ''Message: '')"
  by (simp_all add: timeout_world_def sample_fetch_world_def)

lemma clean_text_hello: "clean_text (''Hello'' @ [CHR 0x0A, CHR 0x0A]) = ''Hello''"
  by code_simp

text \<open>
  C1. \<open>async_browse\<close> never closes the browser it started: a fetch that succeeds
  returns its answer with the session (handle 7) still open. \<open>browse_website\<close> closes
  it only as its last step: when the summarizer fails, the exception leaves the function
  and the session stays open.
\<close>

theorem session_not_released:
  "async_browse sample_fetch_world ''http://a.org/x'' ''why'' =
     ([Print (scraping_msg ''why'' ''http://a.org/x''),
       WsSendJson (logs_message (browsing_msg ''http://a.org/x'' ''why'')),
       DriverStart ''Chrome'' None
         [''user-agent=Mozilla/5.0'', ''--headless'', ''--enable-javascript'',
          ''--disable-dev-shm-usage'', ''--remote-debugging-port=9222'', ''--no-sandbox'']
         [(''prefs'', JObj [(''download_restrictions'', JInt 3)])],
       Print ''scraping url http://a.org/x...'',
       DriverGet 7 ''http://a.org/x'', WaitBody 7,
       ExecuteScript 7 ''return document.body.outerHTML;'',
       ReadFile ''/app/js/overlay.js'', ExecuteScript 7 ''overlay();'',
       SummarizeText ''http://a.org/x'' ''Hello'' ''why'' 7,
       WsSendJson (logs_message (gathered_msg ''http://a.org/x'' ''summary''))],
      Inr ''Information gathered from url http://a.org/x: summary'') \<and>
   browse_website failing_summarizer_world ''http://a.org/x'' ''why'' =
     ([DriverStart ''Chrome'' None
         [''user-agent=Mozilla/5.0'', ''--headless'', ''--enable-javascript'',
          ''--disable-dev-shm-usage'', ''--remote-debugging-port=9222'', ''--no-sandbox'']
         [(''prefs'', JObj [(''download_restrictions'', JInt 3)])],
       Print ''scraping url http://a.org/x...'',
       DriverGet 7 ''http://a.org/x'', WaitBody 7,
       ExecuteScript 7 ''return document.body.outerHTML;'',
       ReadFile ''/app/js/overlay.js'', ExecuteScript 7 ''overlay();'',
       SummarizeText ''http://a.org/x'' ''Hello'' ''why'' 7],
      Inl (Exn (LibraryError ''RateLimitError'') ''rate limit reached''))"
proof -
  have pdf: "\<not> endswith ''http://a.org/x'' ''.pdf''" by code_simp
  have arxiv: "\<not> str_contains ''arxiv'' ''http://a.org/x''" by code_simp
  have scr: "scrape_text_with_selenium sample_fetch_world ''http://a.org/x'' =
     ([DriverStart ''Chrome'' None
         [''user-agent=Mozilla/5.0'', ''--headless'', ''--enable-javascript'',
          ''--disable-dev-shm-usage'', ''--remote-debugging-port=9222'', ''--no-sandbox'']
         [(''prefs'', JObj [(''download_restrictions'', JInt 3)])],
       Print ''scraping url http://a.org/x...'',
       DriverGet 7 ''http://a.org/x'', WaitBody 7,
       ExecuteScript 7 ''return document.body.outerHTML;''], Inr (7, ''Hello''))"
    using clean_text_hello
    by (simp add: scrape_text_with_selenium_def open_session_def extract_content_def pdf arxiv
          get_text_def Let_def sample_fetch_world_fields bnd_def act_def ret_def raise_def lift_def)
  have scr': "scrape_text_with_selenium failing_summarizer_world ''http://a.org/x'' =
     ([DriverStart ''Chrome'' None
         [''user-agent=Mozilla/5.0'', ''--headless'', ''--enable-javascript'',
          ''--disable-dev-shm-usage'', ''--remote-debugging-port=9222'', ''--no-sandbox'']
         [(''prefs'', JObj [(''download_restrictions'', JInt 3)])],
       Print ''scraping url http://a.org/x...'',
       DriverGet 7 ''http://a.org/x'', WaitBody 7,
       ExecuteScript 7 ''return document.body.outerHTML;''], Inr (7, ''Hello''))"
    using clean_text_hello
    by (simp add: scrape_text_with_selenium_def open_session_def extract_content_def pdf arxiv
          get_text_def Let_def failing_summarizer_world_fields
          bnd_def act_def ret_def raise_def lift_def)
  have a: "async_browse sample_fetch_world ''http://a.org/x'' ''why'' =
     ([Print (scraping_msg ''why'' ''http://a.org/x''),
       WsSendJson (logs_message (browsing_msg ''http://a.org/x'' ''why'')),
       DriverStart ''Chrome'' None
         [''user-agent=Mozilla/5.0'', ''--headless'', ''--enable-javascript'',
          ''--disable-dev-shm-usage'', ''--remote-debugging-port=9222'', ''--no-sandbox'']
         [(''prefs'', JObj [(''download_restrictions'', JInt 3)])],
       Print ''scraping url http://a.org/x...'',
       DriverGet 7 ''http://a.org/x'', WaitBody 7,
       ExecuteScript 7 ''return document.body.outerHTML;'',
       ReadFile ''/app/js/overlay.js'', ExecuteScript 7 ''overlay();'',
       SummarizeText ''http://a.org/x'' ''Hello'' ''why'' 7,
       WsSendJson (logs_message (gathered_msg ''http://a.org/x'' ''summary''))],
      Inr ''Information gathered from url http://a.org/x: summary'')"
    by (simp add: async_browse_def scr add_header_def try_except_def Let_def
          sample_fetch_world_fields bnd_def act_def ret_def)
  have b: "browse_website failing_summarizer_world ''http://a.org/x'' ''why'' =
     ([DriverStart ''Chrome'' None
         [''user-agent=Mozilla/5.0'', ''--headless'', ''--enable-javascript'',
          ''--disable-dev-shm-usage'', ''--remote-debugging-port=9222'', ''--no-sandbox'']
         [(''prefs'', JObj [(''download_restrictions'', JInt 3)])],
       Print ''scraping url http://a.org/x...'',
       DriverGet 7 ''http://a.org/x'', WaitBody 7,
       ExecuteScript 7 ''return document.body.outerHTML;'',
       ReadFile ''/app/js/overlay.js'', ExecuteScript 7 ''overlay();'',
       SummarizeText ''http://a.org/x'' ''Hello'' ''why'' 7],
      Inl (Exn (LibraryError ''RateLimitError'') ''rate limit reached''))"
    by (simp add: browse_website_def scr' add_header_def Let_def
          failing_summarizer_world_fields bnd_def act_def ret_def)
  from a b show ?thesis ..
qed

text \<open>
  C2. \<open>browse_website\<close> has no handler: when the page body does not appear in time,
  the timeout exception of the wait leaves the function.
\<close>

theorem sync_fetch_raises:
  "browse_website timeout_world ''http://a.org/x'' ''why'' =
     ([DriverStart ''Chrome'' None
         [''user-agent=Mozilla/5.0'', ''--headless'', ''--enable-javascript'',
          ''--disable-dev-shm-usage'', ''--remote-debugging-port=9222'', ''--no-sandbox'']
         [(''prefs'', JObj [(''download_restrictions'', JInt 3)])],
       Print ''scraping url http://a.org/x...'',
       DriverGet 7 ''http://a.org/x'', WaitBody 7],
      Inl (Exn (LibraryError ''TimeoutException'') ''Message: ''))"
  by (simp add: browse_website_def scrape_text_with_selenium_def open_session_def Let_def
        timeout_world_fields bnd_def act_def ret_def raise_def)

text \<open>
  C5. \<open>async_browse\<close> does not test the URL: with the empty URL it starts the browser,
  asks it to navigate to the empty URL, and reports the browser's refusal.
\<close>

theorem async_empty_url_starts_browser:
  "async_browse sample_fetch_world [] ''why'' =
     ([Print (scraping_msg ''why'' []),
       WsSendJson (logs_message (browsing_msg [] ''why'')),
       DriverStart ''Chrome'' None
         [''user-agent=Mozilla/5.0'', ''--headless'', ''--enable-javascript'',
          ''--disable-dev-shm-usage'', ''--remote-debugging-port=9222'', ''--no-sandbox'']
         [(''prefs'', JObj [(''download_restrictions'', JInt 3)])],
       Print ''scraping url ...'',
       DriverGet 7 [],
       Print ''An error occurred while processing the url : invalid argument''],
      Inr ''Error processing the url : invalid argument'')"
  by (simp add: async_browse_def scrape_text_with_selenium_def open_session_def try_except_def
        Let_def sample_fetch_world_fields bnd_def act_def ret_def raise_def)

end
